theory Spec2Isabelle
  imports Complex_Main "HOL-Library.AList" "HOL-Library.Sublist"
begin

section \<open>Python values, exceptions and the HTTP client library\<close>

text \<open>
  The repository is a Python program on top of the \<^verbatim>\<open>requests\<close> library. A Python
  \<^verbatim>\<open>str\<close> is modelled as a \<open>string\<close> holding its UTF-8 bytes, so the non-ASCII
  literals of the source appear as byte lists. A raised exception is a value: its class
  and the text \<^verbatim>\<open>str(e)\<close>. Every function that can raise returns \<open>py_exn + 'a\<close>,
  with \<open>Inl\<close> for the exception.
\<close>

datatype exn_class =
    SSLError              \<comment> \<open>requests.exceptions.SSLError, a RequestException\<close>
  | MaxRetryError         \<comment> \<open>urllib3.exceptions.MaxRetryError, not a RequestException\<close>
  | HTTPError             \<comment> \<open>requests.exceptions.HTTPError, raised by raise_for_status\<close>
  | InvalidJSONError      \<comment> \<open>requests.exceptions.JSONDecodeError, raised by Response.json\<close>
  | RequestException      \<comment> \<open>any other subclass of requests.exceptions.RequestException\<close>
  | TimeoutError          \<comment> \<open>the builtin TimeoutError\<close>
  | RuntimeError
  | KeyError
  | IndexError
  | TypeError
  | AttributeError
  | ValueError
  | JSONDecodeError       \<comment> \<open>json.JSONDecodeError, a ValueError\<close>
  | FileNotFoundError
  | OSError               \<comment> \<open>any other OSError\<close>
  | OtherException        \<comment> \<open>any other subclass of Exception\<close>
  | SystemExit            \<comment> \<open>a BaseException that is not an Exception\<close>
  | KeyboardInterrupt     \<comment> \<open>a BaseException that is not an Exception\<close>

datatype py_exn = Exn exn_class string

fun exn_cls :: "py_exn \<Rightarrow> exn_class" where
  "exn_cls (Exn c m) = c"

fun exn_str :: "py_exn \<Rightarrow> string" where
  "exn_str (Exn c m) = m"

text \<open>\<^verbatim>\<open>isinstance(e, RequestException)\<close>, by the class hierarchy of requests.\<close>

fun is_RequestException :: "exn_class \<Rightarrow> bool" where
  "is_RequestException SSLError = True"
| "is_RequestException HTTPError = True"
| "is_RequestException InvalidJSONError = True"
| "is_RequestException RequestException = True"
| "is_RequestException c = False"

text \<open>\<^verbatim>\<open>isinstance(e, Exception)\<close>.\<close>

fun is_Exception :: "exn_class \<Rightarrow> bool" where
  "is_Exception SystemExit = False"
| "is_Exception KeyboardInterrupt = False"
| "is_Exception c = True"

text \<open>The clause \<^verbatim>\<open>except (SSLError, MaxRetryError, RequestException)\<close> of utils.py.\<close>

definition caught_by_tier :: "py_exn \<Rightarrow> bool" where
  "caught_by_tier e \<longleftrightarrow>
     exn_cls e = SSLError \<or> exn_cls e = MaxRetryError \<or> is_RequestException (exn_cls e)"

text \<open>
  Decoded JSON. A dict is an association list in insertion order; a lookup finds the
  first binding of a key. Numbers are Python ints or, for a JSON number with a fraction
  or an exponent, floats, kept by their exact value.
\<close>

datatype json =
    JNull
  | JBool bool
  | JInt int
  | JFloat rat
  | JStr string
  | JArr "json list"
  | JObj "(string \<times> json) list"

record cookie =
  ck_name :: string
  ck_value :: json
  ck_domain :: string
  ck_path :: string
  ck_expires :: "int option"

text \<open>
  The cookie jar of a client, as \<^verbatim>\<open>http.cookiejar\<close> keeps it: domain, then path,
  then name, each level a dict in insertion order.
\<close>

type_synonym jar = "(string \<times> (string \<times> (string \<times> cookie) list) list) list"

record retry =
  total :: nat
  backoff_factor :: rat
  status_forcelist :: "int list"
  allowed_methods :: "string list"

record client =
  cl_headers :: "(string \<times> string) list"
  cl_cookies :: jar
  cl_max_retries :: "retry option"   \<comment> \<open>the Retry mounted on https://, if any\<close>

datatype kwval = KInt int | KBool bool | KParams "(string \<times> json) list"

type_synonym kwargs = "(string \<times> kwval) list"

text \<open>One GET as the program issues it: the client it goes through, the URL, the keyword arguments.\<close>

record call =
  c_client :: client
  c_url :: string
  c_kwargs :: kwargs

record response =
  status_code :: int
  reason :: string
  resp_url :: string
  resp_text :: string                 \<comment> \<open>\<^verbatim>\<open>resp.text\<close>\<close>
  json_body :: "py_exn + json"        \<comment> \<open>what \<^verbatim>\<open>resp.json()\<close> returns or raises\<close>
  resp_cookies :: "cookie list"       \<comment> \<open>the cookies the client stores from this exchange\<close>

text \<open>
  What the program cannot decide is a parameter: the outcome of the \<open>n\<close>-th network
  call of the run, the \<open>n\<close>-th reading of \<^verbatim>\<open>time.time()\<close>, the current UTC time, and
  the library functions the source calls without defining them.
\<close>

record env =
  net :: "nat \<Rightarrow> py_exn + response"
  clock :: "nat \<Rightarrow> rat"
  utc_now :: int
  default_headers :: "(string \<times> string) list"   \<comment> \<open>headers of a new \<^verbatim>\<open>requests.Session()\<close>\<close>
  json_loads :: "string \<Rightarrow> string + json"          \<comment> \<open>\<open>Inl\<close>: not valid JSON, with the decoder's message\<close>
  json_dumps :: "json \<Rightarrow> string"
  py_str :: "json \<Rightarrow> string"                     \<comment> \<open>\<^verbatim>\<open>str(x)\<close> of a decoded value\<close>
  strptime_utc :: "string \<Rightarrow> int option"         \<comment> \<open>\<open>None\<close>: strptime raises ValueError\<close>
  strftime_utc :: "int \<Rightarrow> py_exn + string"       \<comment> \<open>\<^verbatim>\<open>fromtimestamp\<close>, then \<^verbatim>\<open>strftime\<close>\<close>
  qr_ascii :: "json \<Rightarrow> py_exn + string"          \<comment> \<open>the QR code as the qrcode package prints it\<close>

datatype fs_entry =
    RegularFile string      \<comment> \<open>a readable, writable file and its text\<close>
  | Directory
  | Blocked py_exn          \<comment> \<open>a path on which \<^verbatim>\<open>open\<close> raises this OSError (a directory, no permission)\<close>

record world =
  w_session :: client                    \<comment> \<open>the shared \<^verbatim>\<open>session\<close> of session.py\<close>
  w_log :: "call list"                   \<comment> \<open>the network calls issued so far, oldest first\<close>
  w_out :: "string list"                 \<comment> \<open>what was written to stdout, oldest first\<close>
  w_reads :: nat                         \<comment> \<open>how many times \<^verbatim>\<open>time.time()\<close> was read\<close>
  w_sleeps :: "rat list"                 \<comment> \<open>the arguments of \<^verbatim>\<open>time.sleep\<close>, oldest first\<close>
  w_fs :: "string \<Rightarrow> fs_entry option"    \<comment> \<open>the files; \<open>None\<close>: the path does not exist\<close>

subsection \<open>Python operations on decoded values\<close>

definition and_then :: "py_exn + 'a \<Rightarrow> ('a \<Rightarrow> py_exn + 'b) \<Rightarrow> py_exn + 'b" where
  "and_then r f = (case r of Inl e \<Rightarrow> Inl e | Inr x \<Rightarrow> f x)"

text \<open>The name of a value's type, as Python's error messages print it.\<close>

fun type_name :: "json \<Rightarrow> string" where
  "type_name JNull = ''NoneType''"
| "type_name (JBool b) = ''bool''"
| "type_name (JInt i) = ''int''"
| "type_name (JFloat r) = ''float''"
| "type_name (JStr s) = ''str''"
| "type_name (JArr xs) = ''list''"
| "type_name (JObj kvs) = ''dict''"

text \<open>\<^verbatim>\<open>x[key]\<close> with a string key.\<close>

fun py_getitem :: "json \<Rightarrow> string \<Rightarrow> py_exn + json" where
  "py_getitem (JObj kvs) key =
     (case map_of kvs key of
        None \<Rightarrow> Inl (Exn KeyError ([CHR 0x27] @ key @ [CHR 0x27]))
      | Some v \<Rightarrow> Inr v)"
| "py_getitem (JArr xs) key = Inl (Exn TypeError ''list indices must be integers or slices, not str'')"
| "py_getitem (JStr s) key = Inl (Exn TypeError (''string indices must be integers, not '' @ [CHR 0x27] @ ''str'' @ [CHR 0x27]))"
| "py_getitem v key =
     Inl (Exn TypeError ([CHR 0x27] @ type_name v @ [CHR 0x27] @ '' object is not subscriptable''))"

text \<open>\<^verbatim>\<open>x == n\<close> for an int literal \<open>n\<close>: numbers compare by value, and a bool is the int 0 or 1.\<close>

fun py_eq_int :: "json \<Rightarrow> int \<Rightarrow> bool" where
  "py_eq_int (JInt i) n = (i = n)"
| "py_eq_int (JFloat r) n = (r = of_int n)"
| "py_eq_int (JBool b) n = ((if b then 1 else 0) = n)"
| "py_eq_int v n = False"

text \<open>The truth value of \<^verbatim>\<open>if x:\<close>.\<close>

fun py_truthy :: "json \<Rightarrow> bool" where
  "py_truthy JNull = False"
| "py_truthy (JBool b) = b"
| "py_truthy (JInt i) = (i \<noteq> 0)"
| "py_truthy (JFloat r) = (r \<noteq> 0)"
| "py_truthy (JStr s) = (s \<noteq> [])"
| "py_truthy (JArr xs) = (xs \<noteq> [])"
| "py_truthy (JObj kvs) = (kvs \<noteq> [])"

text \<open>\<^verbatim>\<open>int(x)\<close> of a float: truncation towards zero.\<close>

definition py_int :: "rat \<Rightarrow> int" where
  "py_int r = (if 0 \<le> r then \<lfloor>r\<rfloor> else \<lceil>r\<rceil>)"

text \<open>\<^verbatim>\<open>{x}\<close> in an f-string: a str as it is, anything else through \<^verbatim>\<open>str\<close>.\<close>

definition fmt :: "env \<Rightarrow> json \<Rightarrow> string" where
  "fmt env v = (case v of JStr s \<Rightarrow> s | _ \<Rightarrow> py_str env v)"

text \<open>\<^verbatim>\<open>{s:>3}\<close> and \<^verbatim>\<open>{s:10s}\<close>: padding with spaces to a width.\<close>

definition rjust :: "nat \<Rightarrow> string \<Rightarrow> string" where
  "rjust n s = replicate (n - length s) CHR '' '' @ s"

definition ljust :: "nat \<Rightarrow> string \<Rightarrow> string" where
  "ljust n s = s @ replicate (n - length s) CHR '' ''"

text \<open>\<^verbatim>\<open>print(s)\<close> and \<^verbatim>\<open>print(s, end="")\<close>.\<close>

definition print :: "string \<Rightarrow> world \<Rightarrow> world" where
  "print s w = w\<lparr>w_out := w_out w @ [s @ [CHR 0x0A]]\<rparr>"

definition print_noend :: "string \<Rightarrow> world \<Rightarrow> world" where
  "print_noend s w = w\<lparr>w_out := w_out w @ [s]\<rparr>"

text \<open>\<^verbatim>\<open>time.time()\<close>: the next reading of the clock.\<close>

definition time_time :: "env \<Rightarrow> world \<Rightarrow> rat \<times> world" where
  "time_time env w = (clock env (w_reads w), w\<lparr>w_reads := w_reads w + 1\<rparr>)"

text \<open>\<^verbatim>\<open>time.sleep(secs)\<close>: a negative length raises ValueError.\<close>

definition time_sleep :: "rat \<Rightarrow> world \<Rightarrow> (py_exn + unit) \<times> world" where
  "time_sleep secs w =
     (if secs < 0 then (Inl (Exn ValueError ''sleep length must be non-negative''), w)
      else (Inr (), w\<lparr>w_sleeps := w_sleeps w @ [secs]\<rparr>))"

text \<open>A URL argument: requests turns a value that is not a str into one.\<close>

definition url_of :: "env \<Rightarrow> json \<Rightarrow> string" where
  "url_of env v = fmt env v"

subsection \<open>session.py\<close>

definition user_agent :: string where
  "user_agent = ''Mozilla/5.0 (Windows NT 10.0; Win64; x64) '' @
     ''AppleWebKit/537.36 (KHTML, like Gecko) '' @ ''Chrome/114.0.0.0 Safari/537.36''"

text \<open>\<^verbatim>\<open>d.update(other)\<close> on a dict.\<close>

definition dict_update :: "('k \<times> 'v) list \<Rightarrow> ('k \<times> 'v) list \<Rightarrow> ('k \<times> 'v) list" where
  "dict_update d other = fold (\<lambda>(k, v). AList.update k v) other d"

definition session_retry :: retry where
  "session_retry = \<lparr>total = 3, backoff_factor = 1 / 2,
     status_forcelist = [500, 502, 503, 504], allowed_methods = [''GET'', ''POST'']\<rparr>"

definition new_session :: "env \<Rightarrow> client" where
  "new_session env = \<lparr>cl_headers = default_headers env, cl_cookies = [], cl_max_retries = None\<rparr>"

definition session_init :: "env \<Rightarrow> client" where
  "session_init env =
     (new_session env)\<lparr>
        cl_headers := dict_update (default_headers env)
          [(''User-Agent'', user_agent), (''Referer'', ''https://passport.bilibili.com/login'')],
        cl_max_retries := Some session_retry\<rparr>"

subsection \<open>The requests library: a GET through a client, the status check\<close>

text \<open>
  \<^verbatim>\<open>jar.set_cookie(c)\<close> of requests: a str value in double quotes loses its escaped quotes,
  then the cookie replaces the one of the same domain, path and name.
\<close>

fun drop_escaped_quotes :: "string \<Rightarrow> string" where
  "drop_escaped_quotes (a # b # r) =
     (if a = CHR 0x5C \<and> b = CHR 0x22 then drop_escaped_quotes r
      else a # drop_escaped_quotes (b # r))"
| "drop_escaped_quotes r = r"

definition unquote :: "json \<Rightarrow> json" where
  "unquote v =
     (case v of
        JStr s \<Rightarrow>
          if s \<noteq> [] \<and> hd s = CHR 0x22 \<and> last s = CHR 0x22 then JStr (drop_escaped_quotes s)
          else JStr s
      | _ \<Rightarrow> v)"

definition jar_set :: "cookie \<Rightarrow> jar \<Rightarrow> jar" where
  "jar_set c0 j =
     (let c = c0\<lparr>ck_value := unquote (ck_value c0)\<rparr>;
          paths = (case map_of j (ck_domain c) of None \<Rightarrow> [] | Some ps \<Rightarrow> ps);
          names = (case map_of paths (ck_path c) of None \<Rightarrow> [] | Some ns \<Rightarrow> ns)
      in AList.update (ck_domain c)
           (AList.update (ck_path c) (AList.update (ck_name c) c names) paths) j)"

text \<open>\<^verbatim>\<open>remove_cookie_by_name(jar, name)\<close>: every cookie of that name goes, whatever its domain.\<close>

definition jar_remove :: "string \<Rightarrow> jar \<Rightarrow> jar" where
  "jar_remove name j = map (\<lambda>(d, ps). (d, map (\<lambda>(p, ns). (p, AList.delete name ns)) ps)) j"

text \<open>
  \<^verbatim>\<open>jar.update({name: value, ...})\<close>: a value \<^verbatim>\<open>None\<close> removes the cookies of that name, any
  other value is stored as a cookie of domain \<^verbatim>\<open>""\<close> and path \<^verbatim>\<open>"/"\<close> without expiry.
\<close>

definition jar_put :: "string \<times> json \<Rightarrow> jar \<Rightarrow> jar" where
  "jar_put nv j =
     (case nv of (name, v) \<Rightarrow>
        if v = JNull then jar_remove name j
        else jar_set \<lparr>ck_name = name, ck_value = v, ck_domain = [], ck_path = ''/'',
                       ck_expires = None\<rparr> j)"

definition cookies_update :: "(string \<times> json) list \<Rightarrow> world \<Rightarrow> world" where
  "cookies_update d w =
     w\<lparr>w_session := (w_session w)\<lparr>cl_cookies := fold jar_put d (cl_cookies (w_session w))\<rparr>\<rparr>"

text \<open>Iterating over a jar.\<close>

definition jar_iter :: "jar \<Rightarrow> cookie list" where
  "jar_iter j = concat (map (\<lambda>(d, ps). concat (map (\<lambda>(p, ns). map snd ns) ps)) j)"

text \<open>
  \<^verbatim>\<open>client.get(url, **kwargs)\<close>: the call is logged, its outcome is the next one of the
  environment, and a response's cookies go to the jar of the shared session when that is
  the client.
\<close>

definition client_get ::
  "env \<Rightarrow> client \<Rightarrow> string \<Rightarrow> kwargs \<Rightarrow> world \<Rightarrow> (py_exn + response) \<times> world" where
  "client_get env cl url kw w =
     (let r = net env (length (w_log w));
          w1 = w\<lparr>w_log := w_log w @ [\<lparr>c_client = cl, c_url = url, c_kwargs = kw\<rparr>]\<rparr>
      in (r, w1))"

definition store_cookies :: "py_exn + response \<Rightarrow> client \<Rightarrow> client" where
  "store_cookies r cl =
     (case r of
        Inl e \<Rightarrow> cl
      | Inr resp \<Rightarrow> cl\<lparr>cl_cookies := fold jar_set (resp_cookies resp) (cl_cookies cl)\<rparr>)"

definition session_get ::
  "env \<Rightarrow> string \<Rightarrow> kwargs \<Rightarrow> world \<Rightarrow> (py_exn + response) \<times> world" where
  "session_get env url kw w =
     (case client_get env (w_session w) url kw w of
        (r, w1) \<Rightarrow> (r, w1\<lparr>w_session := store_cookies r (w_session w1)\<rparr>))"

definition digit_char :: "nat \<Rightarrow> char" where
  "digit_char n = ''0123456789'' ! n"

fun str_nat :: "nat \<Rightarrow> string" where
  "str_nat n = (if n < 10 then [digit_char n] else str_nat (n div 10) @ [digit_char (n mod 10)])"

definition str_int :: "int \<Rightarrow> string" where
  "str_int i = (if i < 0 then ''-'' @ str_nat (nat (- i)) else str_nat (nat i))"

text \<open>
  \<^verbatim>\<open>resp.raise_for_status()\<close>: an HTTPError for a status in 400..599, with the
  message requests builds.
\<close>

definition raise_for_status :: "response \<Rightarrow> py_exn + unit" where
  "raise_for_status resp =
     (if 400 \<le> status_code resp \<and> status_code resp < 500 then
        Inl (Exn HTTPError (str_int (status_code resp) @ '' Client Error: '' @ reason resp
                            @ '' for url: '' @ resp_url resp))
      else if 500 \<le> status_code resp \<and> status_code resp < 600 then
        Inl (Exn HTTPError (str_int (status_code resp) @ '' Server Error: '' @ reason resp
                            @ '' for url: '' @ resp_url resp))
      else Inr ())"

section \<open>utils.py: the resilient fetch\<close>

definition msg_all_failed :: string where
  "msg_all_failed = [CHR 0xE4, CHR 0xB8, CHR 0x89, CHR 0xE6, CHR 0xAC, CHR 0xA1, CHR 0xE5,
     CHR 0xB0, CHR 0x9D, CHR 0xE8, CHR 0xAF, CHR 0x95, CHR 0xE5, CHR 0x9D, CHR 0x87, CHR 0xE5,
     CHR 0xA4, CHR 0xB1, CHR 0xE8, CHR 0xB4, CHR 0xA5] @ '':'' @ [CHR 0x0A]"

definition label_tier1 :: string where
  "label_tier1 = ''1) '' @ [CHR 0xE6, CHR 0x99, CHR 0xAE, CHR 0xE9, CHR 0x80, CHR 0x9A] @
     '' session.get '' @ [CHR 0xE2, CHR 0x86, CHR 0x92] @ '' ''"

definition label_tier2 :: string where
  "label_tier2 = ''2) session.get verify=False '' @ [CHR 0xE2, CHR 0x86, CHR 0x92] @ '' ''"

definition label_tier3 :: string where
  "label_tier3 = ''3) plain requests.get '' @ [CHR 0xE2, CHR 0x86, CHR 0x92] @ '' ''"

text \<open>The argument list \<^verbatim>\<open>verify=False, **{k: v for k, v in kwargs.items() if k != "verify"}\<close>.\<close>

definition no_verify :: "kwargs \<Rightarrow> kwargs" where
  "no_verify kw = (''verify'', KBool False) # filter (\<lambda>(k, v). k \<noteq> ''verify'') kw"

text \<open>
  The two statements of each \<^verbatim>\<open>try\<close> body: the response of the GET goes through
  \<^verbatim>\<open>raise_for_status\<close> before it is returned.
\<close>

definition check_status :: "py_exn + response \<Rightarrow> py_exn + response" where
  "check_status r =
     (case r of
        Inl e \<Rightarrow> Inl e
      | Inr resp \<Rightarrow> (case raise_for_status resp of Inl e \<Rightarrow> Inl e | Inr u \<Rightarrow> Inr resp))"

definition checked :: "(py_exn + response) \<times> world \<Rightarrow> (py_exn + response) \<times> world" where
  "checked rw = (case rw of (r, w1) \<Rightarrow> (check_status r, w1))"

text \<open>\<^verbatim>\<open>no_retry = requests.Session(); no_retry.headers.update(session.headers)\<close>\<close>

definition no_retry_client :: "env \<Rightarrow> world \<Rightarrow> client" where
  "no_retry_client env w =
     (new_session env)\<lparr>cl_headers :=
        dict_update (cl_headers (new_session env)) (cl_headers (w_session w))\<rparr>"

definition all_failed_msg :: "py_exn \<Rightarrow> py_exn \<Rightarrow> py_exn \<Rightarrow> string" where
  "all_failed_msg e1 e2 e3 =
     msg_all_failed @
     label_tier1 @ exn_str e1 @ [CHR 0x0A] @
     label_tier2 @ exn_str e2 @ [CHR 0x0A] @
     label_tier3 @ exn_str e3"

text \<open>
  \<^verbatim>\<open>_safe_get(url, **kwargs)\<close> (an Isabelle name cannot start with an underscore).
  An exception that an \<^verbatim>\<open>except\<close> clause does not catch leaves the function.
\<close>

definition safe_get ::
  "env \<Rightarrow> string \<Rightarrow> kwargs \<Rightarrow> world \<Rightarrow> (py_exn + response) \<times> world" where
  "safe_get env url kw w =
     (case checked (session_get env url kw w) of
        (Inr resp, w1) \<Rightarrow> (Inr resp, w1)
      | (Inl e1, w1) \<Rightarrow>
          if \<not> caught_by_tier e1 then (Inl e1, w1)
          else
            (case checked (session_get env url (no_verify kw) w1) of
               (Inr resp, w2) \<Rightarrow> (Inr resp, w2)
             | (Inl e2, w2) \<Rightarrow>
                 if \<not> caught_by_tier e2 then (Inl e2, w2)
                 else
                   (case checked (client_get env (no_retry_client env w2) url (no_verify kw) w2) of
                      (Inr resp, w3) \<Rightarrow> (Inr resp, w3)
                    | (Inl e3, w3) \<Rightarrow>
                        if is_Exception (exn_cls e3)
                        then (Inl (Exn RuntimeError (all_failed_msg e1 e2 e3)), w3)
                        else (Inl e3, w3))))"

subsection \<open>What the fetch does, tier by tier\<close>

lemma session_get_eq:
  "session_get env url kw w =
     (net env (length (w_log w)),
      w\<lparr>w_log := w_log w @ [\<lparr>c_client = w_session w, c_url = url, c_kwargs = kw\<rparr>],
        w_session := store_cookies (net env (length (w_log w))) (w_session w)\<rparr>)"
  by (simp add: session_get_def client_get_def Let_def)

lemma client_get_eq:
  "client_get env cl url kw w =
     (net env (length (w_log w)),
      w\<lparr>w_log := w_log w @ [\<lparr>c_client = cl, c_url = url, c_kwargs = kw\<rparr>]\<rparr>)"
  by (simp add: client_get_def Let_def)

lemma checked_pair: "checked (r, w) = (check_status r, w)"
  by (simp add: checked_def)

lemma sublist_all_failed:
  "sublist (label_tier1 @ exn_str e1) (all_failed_msg e1 e2 e3)"
  "sublist (label_tier2 @ exn_str e2) (all_failed_msg e1 e2 e3)"
  "sublist (label_tier3 @ exn_str e3) (all_failed_msg e1 e2 e3)"
proof -
  show "sublist (label_tier1 @ exn_str e1) (all_failed_msg e1 e2 e3)"
    unfolding all_failed_msg_def sublist_def
    by (rule exI [of _ msg_all_failed], rule exI [of _ "[CHR 0x0A] @ label_tier2 @ exn_str e2 @ [CHR 0x0A] @ label_tier3 @ exn_str e3"]) simp
  show "sublist (label_tier2 @ exn_str e2) (all_failed_msg e1 e2 e3)"
    unfolding all_failed_msg_def sublist_def
    by (rule exI [of _ "msg_all_failed @ label_tier1 @ exn_str e1 @ [CHR 0x0A]"], rule exI [of _ "[CHR 0x0A] @ label_tier3 @ exn_str e3"]) simp
  show "sublist (label_tier3 @ exn_str e3) (all_failed_msg e1 e2 e3)"
    unfolding all_failed_msg_def sublist_def
    by (rule exI [of _ "msg_all_failed @ label_tier1 @ exn_str e1 @ [CHR 0x0A] @ label_tier2 @ exn_str e2 @ [CHR 0x0A]"], rule exI [of _ "[]"]) simp
qed

text \<open>The clients and calls of the three tiers, from the world before the fetch.\<close>

definition session_after1 :: "env \<Rightarrow> world \<Rightarrow> client" where
  "session_after1 env w = store_cookies (net env (length (w_log w))) (w_session w)"

definition session_after2 :: "env \<Rightarrow> world \<Rightarrow> client" where
  "session_after2 env w = store_cookies (net env (length (w_log w) + 1)) (session_after1 env w)"

definition tier1_call :: "env \<Rightarrow> string \<Rightarrow> kwargs \<Rightarrow> world \<Rightarrow> call" where
  "tier1_call env url kw w = \<lparr>c_client = w_session w, c_url = url, c_kwargs = kw\<rparr>"

definition tier2_call :: "env \<Rightarrow> string \<Rightarrow> kwargs \<Rightarrow> world \<Rightarrow> call" where
  "tier2_call env url kw w =
     \<lparr>c_client = session_after1 env w, c_url = url, c_kwargs = no_verify kw\<rparr>"

definition tier3_call :: "env \<Rightarrow> string \<Rightarrow> kwargs \<Rightarrow> world \<Rightarrow> call" where
  "tier3_call env url kw w =
     \<lparr>c_client = \<lparr>cl_headers = dict_update (default_headers env) (cl_headers (session_after2 env w)),
                  cl_cookies = [], cl_max_retries = None\<rparr>,
      c_url = url, c_kwargs = no_verify kw\<rparr>"

definition after_tier1 :: "env \<Rightarrow> string \<Rightarrow> kwargs \<Rightarrow> world \<Rightarrow> world" where
  "after_tier1 env url kw w =
     w\<lparr>w_log := w_log w @ [tier1_call env url kw w], w_session := session_after1 env w\<rparr>"

definition after_tier2 :: "env \<Rightarrow> string \<Rightarrow> kwargs \<Rightarrow> world \<Rightarrow> world" where
  "after_tier2 env url kw w =
     w\<lparr>w_log := w_log w @ [tier1_call env url kw w, tier2_call env url kw w],
       w_session := session_after2 env w\<rparr>"

definition after_tier3 :: "env \<Rightarrow> string \<Rightarrow> kwargs \<Rightarrow> world \<Rightarrow> world" where
  "after_tier3 env url kw w =
     w\<lparr>w_log := w_log w @ [tier1_call env url kw w, tier2_call env url kw w, tier3_call env url kw w],
       w_session := session_after2 env w\<rparr>"

lemmas tier_defs = session_after1_def session_after2_def tier1_call_def tier2_call_def tier3_call_def
  after_tier1_def after_tier2_def after_tier3_def

lemma safe_get_unfold:
  "safe_get env url kw w =
    (case check_status (net env (length (w_log w))) of
          Inr resp \<Rightarrow> (Inr resp, after_tier1 env url kw w)
        | Inl e1 \<Rightarrow>
            if \<not> caught_by_tier e1 then (Inl e1, after_tier1 env url kw w)
            else (case check_status (net env (length (w_log w) + 1)) of
              Inr resp \<Rightarrow> (Inr resp, after_tier2 env url kw w)
            | Inl e2 \<Rightarrow>
               if \<not> caught_by_tier e2 then (Inl e2, after_tier2 env url kw w)
               else (case check_status (net env (length (w_log w) + 2)) of
                 Inr resp \<Rightarrow> (Inr resp, after_tier3 env url kw w)
               | Inl e3 \<Rightarrow>
                  if is_Exception (exn_cls e3)
                  then (Inl (Exn RuntimeError (all_failed_msg e1 e2 e3)), after_tier3 env url kw w)
                  else (Inl e3, after_tier3 env url kw w))))"
  by (simp add: safe_get_def session_get_eq client_get_eq checked_pair Let_def no_retry_client_def
        new_session_def tier_defs split: sum.splits)

definition ex_response :: "int \<Rightarrow> string \<Rightarrow> string \<Rightarrow> py_exn + json \<Rightarrow> response" where
  "ex_response code why body js =
     \<lparr>status_code = code, reason = why, resp_url = ''https://www.bilibili.com/video/BV1GJ411x7h7'',
      resp_text = body, json_body = js, resp_cookies = []\<rparr>"

definition ex_env :: "(nat \<Rightarrow> py_exn + response) \<Rightarrow> (nat \<Rightarrow> rat) \<Rightarrow> env" where
  "ex_env script ticks =
     \<lparr>net = script, clock = ticks, utc_now = 0, default_headers = [(''Accept'', ''*/*'')],
      json_loads = (\<lambda>s. Inl []), json_dumps = (\<lambda>j. []), py_str = (\<lambda>j. []),
      strptime_utc = (\<lambda>s. None), strftime_utc = (\<lambda>t. Inr []), qr_ascii = (\<lambda>s. Inr [])\<rparr>"

definition ex_world :: "env \<Rightarrow> world" where
  "ex_world env =
     \<lparr>w_session = session_init env, w_log = [], w_out = [], w_reads = 0, w_sleeps = [],
      w_fs = (\<lambda>p. None)\<rparr>"

fun script_of :: "'a list \<Rightarrow> 'a \<Rightarrow> nat \<Rightarrow> 'a" where
  "script_of [] d n = d"
| "script_of (x # xs) d 0 = x"
| "script_of (x # xs) d (Suc n) = script_of xs d n"

definition page_404 :: response where
  "page_404 = ex_response 404 ''Not Found'' [] (Inr JNull)"

definition page_ok :: response where
  "page_ok = ex_response 200 ''OK'' ''<html></html>'' (Inr JNull)"

definition c1_env :: env where
  "c1_env = ex_env (script_of [Inr page_404] (Inr page_ok)) (\<lambda>n. 0)"

lemma script_of_numeral [simp]:
  "script_of (x # xs) d (numeral k) = script_of xs d (pred_numeral k)"
  "script_of (x # xs) d 1 = script_of xs d 0"
  by (simp_all add: numeral_eq_Suc)

subsection \<open>Claim C1\<close>

text \<open>
  C1 as stated fails: a 404 at tier 1 makes \<^verbatim>\<open>raise_for_status\<close> raise an HTTPError, which is a
  RequestException, so the first \<^verbatim>\<open>except\<close> clause catches it and tier 2 is tried; here tier 2
  answers 200 and that response is returned.
\<close>

theorem safe_get_http_error_counterexample:
  "raise_for_status page_404 =
     Inl (Exn HTTPError ''404 Client Error: Not Found for url: https://www.bilibili.com/video/BV1GJ411x7h7'')
   \<and> net c1_env (length (w_log (ex_world c1_env))) = Inr page_404
   \<and> fst (safe_get c1_env ''https://www.bilibili.com/video/BV1GJ411x7h7'' [(''timeout'', KInt 10)]
        (ex_world c1_env)) = Inr page_ok
   \<and> map c_kwargs (w_log (snd (safe_get c1_env ''https://www.bilibili.com/video/BV1GJ411x7h7''
        [(''timeout'', KInt 10)] (ex_world c1_env)))) =
      [[(''timeout'', KInt 10)], [(''verify'', KBool False), (''timeout'', KInt 10)]]"
  by (simp add: safe_get_unfold Let_def c1_env_def ex_env_def ex_world_def page_404_def page_ok_def
      ex_response_def check_status_def raise_for_status_def caught_by_tier_def no_verify_def str_int_def digit_char_def
      tier_defs)

text \<open>
  C1, amended. When tier 1 fails with \<open>e1\<close>: if \<open>e1\<close> is an SSLError, a MaxRetryError or any
  RequestException, the tier-2 request is issued next; otherwise \<open>e1\<close> leaves the function after
  the single tier-1 request. A failure that comes from the status check of a received response
  is an HTTPError and is always of the first kind.
\<close>

theorem safe_get_fallback_classes:
  assumes "check_status (net env (length (w_log w))) = Inl e1"
  shows "(caught_by_tier e1 \<longrightarrow>
            take (length (w_log w) + 2) (w_log (snd (safe_get env url kw w))) =
              w_log w @ [tier1_call env url kw w, tier2_call env url kw w])
       \<and> (\<not> caught_by_tier e1 \<longrightarrow>
            safe_get env url kw w = (Inl e1, after_tier1 env url kw w))
       \<and> (\<forall>resp. net env (length (w_log w)) = Inr resp \<longrightarrow>
            exn_cls e1 = HTTPError \<and> caught_by_tier e1)"
proof (intro conjI impI allI)
  assume "caught_by_tier e1"
  with assms show "take (length (w_log w) + 2) (w_log (snd (safe_get env url kw w))) =
              w_log w @ [tier1_call env url kw w, tier2_call env url kw w]"
    by (simp add: safe_get_unfold tier_defs split: sum.splits)
next
  assume "\<not> caught_by_tier e1"
  with assms show "safe_get env url kw w = (Inl e1, after_tier1 env url kw w)"
    by (simp add: safe_get_unfold Let_def)
next
  fix resp assume "net env (length (w_log w)) = Inr resp"
  with assms have "raise_for_status resp = Inl e1"
    by (simp add: check_status_def split: sum.splits)
  then show "exn_cls e1 = HTTPError" "caught_by_tier e1"
    by (auto simp: raise_for_status_def caught_by_tier_def split: if_splits)
qed


definition tiers_env :: "(py_exn + response) list \<Rightarrow> env" where
  "tiers_env outcomes = ex_env (script_of outcomes (Inl (Exn OtherException []))) (\<lambda>n. 0)"

definition ssl_failure :: py_exn where
  "ssl_failure = Exn SSLError ''certificate verify failed''"

definition retry_failure :: py_exn where
  "retry_failure = Exn MaxRetryError ''Max retries exceeded''"

definition net_failure :: py_exn where
  "net_failure = Exn RequestException ''Connection aborted''"

theorem safe_get_fallback_classes_witness:
  "check_status (net c1_env (length (w_log (ex_world c1_env)))) =
      Inl (Exn HTTPError ''404 Client Error: Not Found for url: https://www.bilibili.com/video/BV1GJ411x7h7'')
   \<and> take (length (w_log (ex_world c1_env)) + 2)
        (w_log (snd (safe_get c1_env ''u'' [] (ex_world c1_env)))) =
        w_log (ex_world c1_env) @ [tier1_call c1_env ''u'' [] (ex_world c1_env), tier2_call c1_env ''u'' [] (ex_world c1_env)]
   \<and> check_status (net (tiers_env [Inl (Exn TypeError ''bad argument'')])
        (length (w_log (ex_world (tiers_env [Inl (Exn TypeError ''bad argument'')]))))) =
      Inl (Exn TypeError ''bad argument'')
   \<and> \<not> caught_by_tier (Exn TypeError ''bad argument'')
   \<and> safe_get (tiers_env [Inl (Exn TypeError ''bad argument'')]) ''u'' []
        (ex_world (tiers_env [Inl (Exn TypeError ''bad argument'')])) =
      (Inl (Exn TypeError ''bad argument''),
       after_tier1 (tiers_env [Inl (Exn TypeError ''bad argument'')]) ''u'' []
         (ex_world (tiers_env [Inl (Exn TypeError ''bad argument'')])))"
proof -
  let ?e = "Exn HTTPError ''404 Client Error: Not Found for url: https://www.bilibili.com/video/BV1GJ411x7h7''"
  let ?t = "Exn TypeError ''bad argument''"
  have h1: "check_status (net c1_env (length (w_log (ex_world c1_env)))) = Inl ?e"
    by (simp add: c1_env_def ex_env_def ex_world_def page_404_def ex_response_def check_status_def
        raise_for_status_def str_int_def digit_char_def)
  have h2: "check_status (net (tiers_env [Inl ?t]) (length (w_log (ex_world (tiers_env [Inl ?t]))))) = Inl ?t"
    by (simp add: tiers_env_def ex_env_def ex_world_def check_status_def)
  have c: "caught_by_tier ?e" "\<not> caught_by_tier ?t"
    by (simp_all add: caught_by_tier_def)
  show ?thesis
    using safe_get_fallback_classes [OF h1, of "''u''" "[]"]
      safe_get_fallback_classes [OF h2, of "''u''" "[]"] h1 h2 c
    by blast
qed

subsection \<open>Claim C2\<close>

text \<open>
  C2. The fetch tries the tiers in order and stops at the first response that passes the status
  check: tier 1 is the shared session with the caller's arguments, tier 2 the same session with
  \<^verbatim>\<open>verify=False\<close>, tier 3 a new client with the session's headers, an empty jar, no Retry and
  \<^verbatim>\<open>verify=False\<close>. The log grows by exactly the tiers tried. When all three fail, the result is
  one RuntimeError whose text holds each failure's text right after its tier's label.
\<close>

theorem safe_get_three_tiers:
  "(\<forall>resp. check_status (net env (length (w_log w))) = Inr resp \<longrightarrow>
      safe_get env url kw w = (Inr resp, after_tier1 env url kw w))
 \<and> (\<forall>e1 resp. check_status (net env (length (w_log w))) = Inl e1 \<and> caught_by_tier e1 \<and>
      check_status (net env (length (w_log w) + 1)) = Inr resp \<longrightarrow>
      safe_get env url kw w = (Inr resp, after_tier2 env url kw w))
 \<and> (\<forall>e1 e2 resp. check_status (net env (length (w_log w))) = Inl e1 \<and> caught_by_tier e1 \<and>
      check_status (net env (length (w_log w) + 1)) = Inl e2 \<and> caught_by_tier e2 \<and>
      check_status (net env (length (w_log w) + 2)) = Inr resp \<longrightarrow>
      safe_get env url kw w = (Inr resp, after_tier3 env url kw w))
 \<and> (\<forall>e1 e2 e3. check_status (net env (length (w_log w))) = Inl e1 \<and> caught_by_tier e1 \<and>
      check_status (net env (length (w_log w) + 1)) = Inl e2 \<and> caught_by_tier e2 \<and>
      check_status (net env (length (w_log w) + 2)) = Inl e3 \<and> is_Exception (exn_cls e3) \<longrightarrow>
      safe_get env url kw w =
        (Inl (Exn RuntimeError (all_failed_msg e1 e2 e3)), after_tier3 env url kw w) \<and>
      sublist (label_tier1 @ exn_str e1) (all_failed_msg e1 e2 e3) \<and>
      sublist (label_tier2 @ exn_str e2) (all_failed_msg e1 e2 e3) \<and>
      sublist (label_tier3 @ exn_str e3) (all_failed_msg e1 e2 e3))
 \<and> w_log (after_tier1 env url kw w) = w_log w @ [tier1_call env url kw w]
 \<and> w_log (after_tier2 env url kw w) = w_log w @ [tier1_call env url kw w, tier2_call env url kw w]
 \<and> w_log (after_tier3 env url kw w) =
      w_log w @ [tier1_call env url kw w, tier2_call env url kw w, tier3_call env url kw w]
 \<and> tier1_call env url kw w = \<lparr>c_client = w_session w, c_url = url, c_kwargs = kw\<rparr>
 \<and> c_url (tier2_call env url kw w) = url
 \<and> cl_headers (c_client (tier2_call env url kw w)) = cl_headers (w_session w)
 \<and> cl_max_retries (c_client (tier2_call env url kw w)) = cl_max_retries (w_session w)
 \<and> map_of (c_kwargs (tier2_call env url kw w)) ''verify'' = Some (KBool False)
 \<and> c_url (tier3_call env url kw w) = url
 \<and> cl_headers (c_client (tier3_call env url kw w)) =
      dict_update (default_headers env) (cl_headers (w_session w))
 \<and> cl_cookies (c_client (tier3_call env url kw w)) = []
 \<and> cl_max_retries (c_client (tier3_call env url kw w)) = None
 \<and> map_of (c_kwargs (tier3_call env url kw w)) ''verify'' = Some (KBool False)"
proof -
  have hd: "cl_headers (store_cookies r cl) = cl_headers cl"
    "cl_max_retries (store_cookies r cl) = cl_max_retries cl" for r cl
    by (simp_all add: store_cookies_def split: sum.splits)
  show ?thesis
    by (intro conjI allI impI)
      (simp_all add: safe_get_unfold sublist_all_failed tier_defs hd no_verify_def)
qed


definition tls_then_ok :: env where
  "tls_then_ok = tiers_env [Inl ssl_failure, Inl ssl_failure, Inr page_ok]"

definition all_three_fail :: env where
  "all_three_fail = tiers_env [Inl ssl_failure, Inl retry_failure, Inl net_failure]"

lemma ex_world_log: "w_log (ex_world env) = []"
  by (simp add: ex_world_def)

theorem safe_get_three_tiers_witness:
  "check_status (net tls_then_ok (length (w_log (ex_world tls_then_ok)))) = Inl ssl_failure
   \<and> caught_by_tier ssl_failure
   \<and> check_status (net tls_then_ok (length (w_log (ex_world tls_then_ok)) + 1)) = Inl ssl_failure
   \<and> check_status (net tls_then_ok (length (w_log (ex_world tls_then_ok)) + 2)) = Inr page_ok
   \<and> safe_get tls_then_ok ''https://www.bilibili.com/video/BV1GJ411x7h7'' [(''timeout'', KInt 10)]
        (ex_world tls_then_ok) =
      (Inr page_ok, after_tier3 tls_then_ok ''https://www.bilibili.com/video/BV1GJ411x7h7''
        [(''timeout'', KInt 10)] (ex_world tls_then_ok))
   \<and> check_status (net all_three_fail (length (w_log (ex_world all_three_fail)))) = Inl ssl_failure
   \<and> check_status (net all_three_fail (length (w_log (ex_world all_three_fail)) + 1)) = Inl retry_failure
   \<and> caught_by_tier retry_failure
   \<and> check_status (net all_three_fail (length (w_log (ex_world all_three_fail)) + 2)) = Inl net_failure
   \<and> is_Exception (exn_cls net_failure)
   \<and> safe_get all_three_fail ''https://www.bilibili.com/video/BV1GJ411x7h7'' [(''timeout'', KInt 10)]
        (ex_world all_three_fail) =
      (Inl (Exn RuntimeError (all_failed_msg ssl_failure retry_failure net_failure)),
       after_tier3 all_three_fail ''https://www.bilibili.com/video/BV1GJ411x7h7''
        [(''timeout'', KInt 10)] (ex_world all_three_fail))
   \<and> sublist (label_tier1 @ ''certificate verify failed'')
        (all_failed_msg ssl_failure retry_failure net_failure)
   \<and> sublist (label_tier2 @ ''Max retries exceeded'')
        (all_failed_msg ssl_failure retry_failure net_failure)
   \<and> sublist (label_tier3 @ ''Connection aborted'')
        (all_failed_msg ssl_failure retry_failure net_failure)"
proof -
  have a: "check_status (net tls_then_ok (length (w_log (ex_world tls_then_ok)))) = Inl ssl_failure"
    "check_status (net tls_then_ok (length (w_log (ex_world tls_then_ok)) + 1)) = Inl ssl_failure"
    "check_status (net tls_then_ok (length (w_log (ex_world tls_then_ok)) + 2)) = Inr page_ok"
    by (simp_all add: tls_then_ok_def tiers_env_def ex_env_def ex_world_log check_status_def
        page_ok_def ex_response_def raise_for_status_def)
  have b: "check_status (net all_three_fail (length (w_log (ex_world all_three_fail)))) = Inl ssl_failure"
    "check_status (net all_three_fail (length (w_log (ex_world all_three_fail)) + 1)) = Inl retry_failure"
    "check_status (net all_three_fail (length (w_log (ex_world all_three_fail)) + 2)) = Inl net_failure"
    by (simp_all add: all_three_fail_def tiers_env_def ex_env_def ex_world_log check_status_def)
  have c: "caught_by_tier ssl_failure" "caught_by_tier retry_failure" "is_Exception (exn_cls net_failure)"
    by (simp_all add: caught_by_tier_def ssl_failure_def retry_failure_def net_failure_def)
  have s: "exn_str ssl_failure = ''certificate verify failed''"
    "exn_str retry_failure = ''Max retries exceeded''" "exn_str net_failure = ''Connection aborted''"
    by (simp_all add: ssl_failure_def retry_failure_def net_failure_def)
  have t3: "safe_get tls_then_ok ''https://www.bilibili.com/video/BV1GJ411x7h7'' [(''timeout'', KInt 10)]
        (ex_world tls_then_ok) =
      (Inr page_ok, after_tier3 tls_then_ok ''https://www.bilibili.com/video/BV1GJ411x7h7''
        [(''timeout'', KInt 10)] (ex_world tls_then_ok))"
    using safe_get_three_tiers [of tls_then_ok "ex_world tls_then_ok"
        "''https://www.bilibili.com/video/BV1GJ411x7h7''" "[(''timeout'', KInt 10)]"] a c
    by blast
  have t4: "safe_get all_three_fail ''https://www.bilibili.com/video/BV1GJ411x7h7'' [(''timeout'', KInt 10)]
        (ex_world all_three_fail) =
      (Inl (Exn RuntimeError (all_failed_msg ssl_failure retry_failure net_failure)),
       after_tier3 all_three_fail ''https://www.bilibili.com/video/BV1GJ411x7h7''
        [(''timeout'', KInt 10)] (ex_world all_three_fail))
      \<and> sublist (label_tier1 @ exn_str ssl_failure) (all_failed_msg ssl_failure retry_failure net_failure)
      \<and> sublist (label_tier2 @ exn_str retry_failure) (all_failed_msg ssl_failure retry_failure net_failure)
      \<and> sublist (label_tier3 @ exn_str net_failure) (all_failed_msg ssl_failure retry_failure net_failure)"
    using safe_get_three_tiers [of all_three_fail "ex_world all_three_fail"
        "''https://www.bilibili.com/video/BV1GJ411x7h7''" "[(''timeout'', KInt 10)]"] b c
    by blast
  show ?thesis
    using a b c t3 t4 unfolding s by blast
qed

section \<open>login.py\<close>

subsection \<open>The texts of the source\<close>

definition msg_qr_failed :: string where
  "msg_qr_failed = [CHR 0xE7, CHR 0x94, CHR 0xB3, CHR 0xE8, CHR 0xAF, CHR 0xB7, CHR 0xE4, CHR 0xBA,
     CHR 0x8C, CHR 0xE7, CHR 0xBB, CHR 0xB4, CHR 0xE7, CHR 0xA0, CHR 0x81, CHR 0xE5, CHR 0xA4, CHR 0xB1,
     CHR 0xE8, CHR 0xB4, CHR 0xA5] @ '': ''"

definition msg_poll_failed :: string where
  "msg_poll_failed = [CHR 0xE8, CHR 0xBD, CHR 0xAE, CHR 0xE8, CHR 0xAF, CHR 0xA2, CHR 0xE6, CHR 0x8E,
     CHR 0xA5, CHR 0xE5, CHR 0x8F, CHR 0xA3, CHR 0xE5, CHR 0xBC, CHR 0x82, CHR 0xE5, CHR 0xB8, CHR 0xB8]
     @ '': ''"

definition msg_unknown_status :: string where
  "msg_unknown_status = [CHR 0xE6, CHR 0x9C, CHR 0xAA, CHR 0xE7, CHR 0x9F, CHR 0xA5, CHR 0xE6, CHR 0x89,
     CHR 0xAB, CHR 0xE7, CHR 0xA0, CHR 0x81, CHR 0xE7, CHR 0x8A, CHR 0xB6, CHR 0xE6, CHR 0x80, CHR 0x81]
     @ '': ''"

text \<open>The two progress texts of the poll loop: not scanned yet; scanned, waiting for confirmation.\<close>

definition msg_not_scanned :: string where
  "msg_not_scanned = [CHR 0xE6, CHR 0x9C, CHR 0xAA, CHR 0xE6, CHR 0x89, CHR 0xAB, CHR 0xE7, CHR 0xA0,
     CHR 0x81]"

definition msg_scanned :: string where
  "msg_scanned = [CHR 0xE5, CHR 0xB7, CHR 0xB2, CHR 0xE6, CHR 0x89, CHR 0xAB, CHR 0xE7, CHR 0xA0,
     CHR 0x81, CHR 0xEF, CHR 0xBC, CHR 0x8C, CHR 0xE5, CHR 0xBE, CHR 0x85, CHR 0xE7, CHR 0xA1, CHR 0xAE,
     CHR 0xE8, CHR 0xAE, CHR 0xA4]"

definition msg_expired :: "int \<Rightarrow> string" where
  "msg_expired elapsed = [CHR 0x0A, CHR 0xE2, CHR 0x9A, CHR 0xA0, CHR 0xEF, CHR 0xB8, CHR 0x8F] @ '' [ ''
     @ str_int elapsed @ ''s ] '' @ [CHR 0xE4, CHR 0xBA, CHR 0x8C, CHR 0xE7, CHR 0xBB, CHR 0xB4, CHR 0xE7,
     CHR 0xA0, CHR 0x81, CHR 0xE5, CHR 0xB7, CHR 0xB2, CHR 0xE8, CHR 0xBF, CHR 0x87, CHR 0xE6, CHR 0x9C,
     CHR 0x9F, CHR 0xEF, CHR 0xBC, CHR 0x8C, CHR 0xE9, CHR 0x87, CHR 0x8D, CHR 0xE6, CHR 0x96, CHR 0xB0,
     CHR 0xE7, CHR 0x94, CHR 0xB3, CHR 0xE8, CHR 0xAF, CHR 0xB7] @ ''...'' @ [CHR 0x0A]"

definition msg_login_ok :: "int \<Rightarrow> string" where
  "msg_login_ok elapsed = [CHR 0x0A, CHR 0xE2, CHR 0x9C, CHR 0x85] @ '' '' @ [CHR 0xE7, CHR 0x99,
     CHR 0xBB, CHR 0xE5, CHR 0xBD, CHR 0x95, CHR 0xE6, CHR 0x88, CHR 0x90, CHR 0xE5, CHR 0x8A, CHR 0x9F,
     CHR 0xEF, CHR 0xBC, CHR 0x81] @ ''['' @ str_int elapsed @ ''s]'' @ [CHR 0x0A]"

definition msg_progress :: "int \<Rightarrow> string \<Rightarrow> string" where
  "msg_progress elapsed msg = [CHR 0x0D] @ ''['' @ rjust 3 (str_int elapsed) @ ''s] '' @ msg"

definition msg_timeout :: string where
  "msg_timeout = [CHR 0xE6, CHR 0x89, CHR 0xAB, CHR 0xE7, CHR 0xA0, CHR 0x81, CHR 0xE7, CHR 0x99,
     CHR 0xBB, CHR 0xE5, CHR 0xBD, CHR 0x95, CHR 0xE8, CHR 0xB6, CHR 0x85, CHR 0xE6, CHR 0x97, CHR 0xB6]"

definition msg_no_file :: "string \<Rightarrow> string" where
  "msg_no_file file_path = [CHR 0xE7, CHR 0x99, CHR 0xBB, CHR 0xE5, CHR 0xBD, CHR 0x95, CHR 0xE4,
     CHR 0xBF, CHR 0xA1, CHR 0xE6, CHR 0x81, CHR 0xAF, CHR 0xE6, CHR 0x96, CHR 0x87, CHR 0xE4, CHR 0xBB,
     CHR 0xB6] @ '' '' @ file_path @ '' '' @ [CHR 0xE4, CHR 0xB8, CHR 0x8D, CHR 0xE5, CHR 0xAD, CHR 0x98,
     CHR 0xE5, CHR 0x9C, CHR 0xA8, CHR 0xEF, CHR 0xBC, CHR 0x8C, CHR 0xE5, CHR 0xBC, CHR 0x80, CHR 0xE5,
     CHR 0xA7, CHR 0x8B, CHR 0xE6, CHR 0x96, CHR 0xB0, CHR 0xE7, CHR 0x99, CHR 0xBB, CHR 0xE5, CHR 0xBD,
     CHR 0x95, CHR 0xE6, CHR 0xB5, CHR 0x81, CHR 0xE7, CHR 0xA8, CHR 0x8B, CHR 0xE3, CHR 0x80, CHR 0x82]"

definition msg_cache_ok :: string where
  "msg_cache_ok = [CHR 0xE2, CHR 0x9C, CHR 0x85] @ '' '' @ [CHR 0xE5, CHR 0xB7, CHR 0xB2, CHR 0xE5,
     CHR 0x8A, CHR 0xA0, CHR 0xE8, CHR 0xBD, CHR 0xBD, CHR 0xE6, CHR 0x9C, CHR 0xAC, CHR 0xE5, CHR 0x9C,
     CHR 0xB0, CHR 0xE7, CHR 0xBC, CHR 0x93, CHR 0xE5, CHR 0xAD, CHR 0x98, CHR 0xEF, CHR 0xBC, CHR 0x8C]
     @ ''Cookie '' @ [CHR 0xE6, CHR 0x9C, CHR 0xAA, CHR 0xE8, CHR 0xBF, CHR 0x87, CHR 0xE6, CHR 0x9C,
     CHR 0x9F, CHR 0xEF, CHR 0xBC, CHR 0x8C, CHR 0xE7, CHR 0x9B, CHR 0xB4, CHR 0xE6, CHR 0x8E, CHR 0xA5,
     CHR 0xE4, CHR 0xBD, CHR 0xBF, CHR 0xE7, CHR 0x94, CHR 0xA8, CHR 0xE3, CHR 0x80, CHR 0x82]"

definition msg_cache_bad :: string where
  "msg_cache_bad = [CHR 0xE2, CHR 0x9A, CHR 0xA0, CHR 0xEF, CHR 0xB8, CHR 0x8F] @ '' '' @ [CHR 0xE6,
     CHR 0x9C, CHR 0xAC, CHR 0xE5, CHR 0x9C, CHR 0xB0, CHR 0xE7, CHR 0xBC, CHR 0x93, CHR 0xE5, CHR 0xAD,
     CHR 0x98, CHR 0xE6, CHR 0x97, CHR 0xA0, CHR 0xE6, CHR 0x95, CHR 0x88, CHR 0xE6, CHR 0x88, CHR 0x96,
     CHR 0xE5, CHR 0xB7, CHR 0xB2, CHR 0xE8, CHR 0xBF, CHR 0x87, CHR 0xE6, CHR 0x9C, CHR 0x9F, CHR 0xEF,
     CHR 0xBC, CHR 0x8C, CHR 0xE9, CHR 0x87, CHR 0x8D, CHR 0xE6, CHR 0x96, CHR 0xB0, CHR 0xE7, CHR 0x99,
     CHR 0xBB, CHR 0xE5, CHR 0xBD, CHR 0x95, CHR 0xE3, CHR 0x80, CHR 0x82]"

definition msg_scan_prompt :: string where
  "msg_scan_prompt = [CHR 0xE8, CHR 0xAF, CHR 0xB7, CHR 0xE7, CHR 0x94, CHR 0xA8, CHR 0xE5, CHR 0x93,
     CHR 0x94, CHR 0xE5, CHR 0x93, CHR 0xA9, CHR 0xE5, CHR 0x93, CHR 0x94, CHR 0xE5, CHR 0x93, CHR 0xA9]
     @ '' App '' @ [CHR 0xE6, CHR 0x89, CHR 0xAB, CHR 0xE6, CHR 0x8F, CHR 0x8F, CHR 0xE4, CHR 0xB8,
     CHR 0x8B, CHR 0xE9, CHR 0x9D, CHR 0xA2, CHR 0xE4, CHR 0xBA, CHR 0x8C, CHR 0xE7, CHR 0xBB, CHR 0xB4,
     CHR 0xE7, CHR 0xA0, CHR 0x81, CHR 0xEF, CHR 0xBC, CHR 0x9A, CHR 0x0A]"

definition msg_timeout_retry :: string where
  "msg_timeout_retry = [CHR 0x0A, CHR 0xE2, CHR 0x8F, CHR 0xB0] @ '' '' @ [CHR 0xE6, CHR 0x89, CHR 0xAB,
     CHR 0xE7, CHR 0xA0, CHR 0x81, CHR 0xE8, CHR 0xB6, CHR 0x85, CHR 0xE6, CHR 0x97, CHR 0xB6, CHR 0xEF,
     CHR 0xBC, CHR 0x8C, CHR 0xE9, CHR 0x87, CHR 0x8D, CHR 0xE6, CHR 0x96, CHR 0xB0, CHR 0xE8, CHR 0x8E,
     CHR 0xB7, CHR 0xE5, CHR 0x8F, CHR 0x96] @ ''...'' @ [CHR 0x0A]"

definition msg_login_error :: "string \<Rightarrow> string" where
  "msg_login_error e = [CHR 0x0A, CHR 0xE2, CHR 0x9D, CHR 0x8C] @ '' '' @ [CHR 0xE7, CHR 0x99, CHR 0xBB,
     CHR 0xE5, CHR 0xBD, CHR 0x95, CHR 0xE5, CHR 0xBC, CHR 0x82, CHR 0xE5, CHR 0xB8, CHR 0xB8, CHR 0xEF,
     CHR 0xBC, CHR 0x9A] @ e @ [CHR 0xEF, CHR 0xBC, CHR 0x8C, CHR 0xE7, CHR 0xA8, CHR 0x8B, CHR 0xE5,
     CHR 0xBA, CHR 0x8F, CHR 0xE9, CHR 0x80, CHR 0x80, CHR 0xE5, CHR 0x87, CHR 0xBA, CHR 0xE3, CHR 0x80,
     CHR 0x82]"

definition msg_cookie_head :: string where
  "msg_cookie_head = [CHR 0xE2, CHR 0x80, CHR 0x94, CHR 0xE2, CHR 0x80, CHR 0x94] @ '' '' @ [CHR 0xE7,
     CHR 0x99, CHR 0xBB, CHR 0xE5, CHR 0xBD, CHR 0x95, CHR 0xE6, CHR 0x80, CHR 0x81] @ '' Cookie '' @
     [CHR 0xE4, CHR 0xBF, CHR 0xA1, CHR 0xE6, CHR 0x81, CHR 0xAF] @ '' '' @ [CHR 0xE2, CHR 0x80, CHR 0x94,
     CHR 0xE2, CHR 0x80, CHR 0x94]"

subsection \<open>get_qr_login and show_qr_terminal\<close>

definition qr_generate_url :: string where
  "qr_generate_url = ''https://passport.bilibili.com/x/passport-login/web/qrcode/generate''"

definition poll_url :: string where
  "poll_url = ''https://passport.bilibili.com/x/passport-login/web/qrcode/poll''"

text \<open>The body of \<^verbatim>\<open>get_qr_login\<close> after the GET: the pair \<^verbatim>\<open>(qrcode_key, url)\<close> of a response.\<close>

definition qr_of_response :: "env \<Rightarrow> response \<Rightarrow> py_exn + json \<times> json" where
  "qr_of_response env resp =
     and_then (raise_for_status resp) (\<lambda>u.
     and_then (json_body resp) (\<lambda>js.
     and_then (py_getitem js ''code'') (\<lambda>code.
       if \<not> py_eq_int code 0 then Inl (Exn RuntimeError (msg_qr_failed @ fmt env js))
       else
         and_then (py_getitem js ''data'') (\<lambda>data.
         and_then (py_getitem data ''qrcode_key'') (\<lambda>key.
         and_then (py_getitem data ''url'') (\<lambda>url. Inr (key, url)))))))"

definition get_qr_login :: "env \<Rightarrow> world \<Rightarrow> (py_exn + json \<times> json) \<times> world" where
  "get_qr_login env w =
     (case session_get env qr_generate_url [(''timeout'', KInt 5)] w of
        (r, w1) \<Rightarrow> (and_then r (qr_of_response env), w1))"

definition show_qr_terminal :: "env \<Rightarrow> json \<Rightarrow> world \<Rightarrow> (py_exn + unit) \<times> world" where
  "show_qr_terminal env qr_url w =
     (case qr_ascii env qr_url of
        Inl e \<Rightarrow> (Inl e, w)
      | Inr art \<Rightarrow> (Inr (), print_noend art w))"

subsection \<open>poll_login\<close>

text \<open>
  The head of the loop body, after the GET: the checks on the response, then
  \<^verbatim>\<open>d = js["data"]; status = d["code"]\<close>. The result is \<^verbatim>\<open>(js, d, status)\<close>.
\<close>

definition poll_decode :: "env \<Rightarrow> response \<Rightarrow> py_exn + json \<times> json \<times> json" where
  "poll_decode env resp =
     and_then (raise_for_status resp) (\<lambda>u.
     and_then (json_body resp) (\<lambda>js.
     and_then (py_getitem js ''code'') (\<lambda>code.
       if \<not> py_eq_int code 0 then Inl (Exn RuntimeError (msg_poll_failed @ fmt env js))
       else
         and_then (py_getitem js ''data'') (\<lambda>d.
         and_then (py_getitem d ''code'') (\<lambda>status. Inr (js, d, status))))))"

text \<open>
  What one pass through the body of \<^verbatim>\<open>while True\<close> ends in: the function returns or raises
  (\<open>Done\<close>), or the pass reaches the end of the body and the loop goes on (\<open>Again\<close>).
\<close>

datatype 'a pass = Again | Done "py_exn + 'a"

text \<open>The tail of the body for the two statuses that set \<^verbatim>\<open>msg\<close>: progress line, timeout check, sleep.\<close>

definition poll_wait :: "rat \<Rightarrow> rat \<Rightarrow> int \<Rightarrow> string \<Rightarrow> world \<Rightarrow> bool pass \<times> world" where
  "poll_wait interval timeout elapsed msg w =
     (let w1 = print_noend (msg_progress elapsed msg) w
      in if timeout \<le> of_int elapsed then (Done (Inl (Exn TimeoutError msg_timeout)), w1)
         else (case time_sleep interval w1 of
                 (Inl e, w2) \<Rightarrow> (Done (Inl e), w2)
               | (Inr u, w2) \<Rightarrow> (Again, w2)))"

text \<open>The status 0: the GET of \<^verbatim>\<open>d["url"]\<close>, whose response is not looked at.\<close>

definition poll_confirm :: "env \<Rightarrow> json \<Rightarrow> int \<Rightarrow> world \<Rightarrow> bool pass \<times> world" where
  "poll_confirm env d elapsed w =
     (case py_getitem d ''url'' of
        Inl e \<Rightarrow> (Done (Inl e), w)
      | Inr login_url \<Rightarrow>
          (case session_get env (url_of env login_url) [(''timeout'', KInt 5)] w of
             (Inl e, w1) \<Rightarrow> (Done (Inl e), w1)
           | (Inr r, w1) \<Rightarrow> (Done (Inr True), print (msg_login_ok elapsed) w1)))"

text \<open>The arguments \<^verbatim>\<open>params={"qrcode_key": qrcode_key}, timeout=5\<close> of the poll request.\<close>

definition poll_kwargs :: "json \<Rightarrow> kwargs" where
  "poll_kwargs qrcode_key = [(''params'', KParams [(''qrcode_key'', qrcode_key)]), (''timeout'', KInt 5)]"

definition poll_pass ::
  "env \<Rightarrow> json \<Rightarrow> rat \<Rightarrow> rat \<Rightarrow> rat \<Rightarrow> world \<Rightarrow> bool pass \<times> world" where
  "poll_pass env qrcode_key interval timeout start w =
     (case session_get env poll_url (poll_kwargs qrcode_key) w of
        (r, w1) \<Rightarrow>
          (case and_then r (poll_decode env) of
             Inl e \<Rightarrow> (Done (Inl e), w1)
           | Inr (js, d, status) \<Rightarrow>
               (case time_time env w1 of
                  (t, w2) \<Rightarrow>
                    (let elapsed = py_int (t - start)
                     in if py_eq_int status 86101 then
                          poll_wait interval timeout elapsed msg_not_scanned w2
                        else if py_eq_int status 86090 then
                          poll_wait interval timeout elapsed msg_scanned w2
                        else if py_eq_int status 86038 then
                          (Done (Inr False), print (msg_expired elapsed) w2)
                        else if py_eq_int status 0 then
                          poll_confirm env d elapsed w2
                        else
                          (Done (Inl (Exn RuntimeError (msg_unknown_status @ fmt env js))), w2)))))"

text \<open>
  The loop. It can run forever, so it takes fuel: \<open>None\<close> says that the function has neither
  returned nor raised after that many passes, and the world is the one reached by then.
\<close>

fun poll_loop ::
  "nat \<Rightarrow> env \<Rightarrow> json \<Rightarrow> rat \<Rightarrow> rat \<Rightarrow> rat \<Rightarrow> world \<Rightarrow> (py_exn + bool) option \<times> world" where
  "poll_loop 0 env qrcode_key interval timeout start w = (None, w)"
| "poll_loop (Suc n) env qrcode_key interval timeout start w =
     (case poll_pass env qrcode_key interval timeout start w of
        (Done r, w1) \<Rightarrow> (Some r, w1)
      | (Again, w1) \<Rightarrow> poll_loop n env qrcode_key interval timeout start w1)"

definition poll_login ::
  "nat \<Rightarrow> env \<Rightarrow> json \<Rightarrow> rat \<Rightarrow> rat \<Rightarrow> world \<Rightarrow> (py_exn + bool) option \<times> world" where
  "poll_login n env qrcode_key interval timeout w =
     (case time_time env w of
        (start, w1) \<Rightarrow> poll_loop n env qrcode_key interval timeout start w1)"

subsection \<open>extract_login_cookies_with_expiry\<close>

definition cred_names :: "string list" where
  "cred_names = [''SESSDATA'', ''bili_jct'', ''DedeUserID'']"

text \<open>
  One entry of the result: the value and the expiry text of the first cookie of that name
  whose domain ends in \<^verbatim>\<open>.bilibili.com\<close>, or two \<^verbatim>\<open>None\<close>s.
\<close>

definition cookie_entry :: "env \<Rightarrow> jar \<Rightarrow> string \<Rightarrow> py_exn + json \<times> json" where
  "cookie_entry env j name =
     (case find (\<lambda>c. ck_name c = name \<and> suffix ''.bilibili.com'' (ck_domain c)) (jar_iter j) of
        None \<Rightarrow> Inr (JNull, JNull)
      | Some c \<Rightarrow>
          (case ck_expires c of
             None \<Rightarrow> Inr (ck_value c, JNull)
           | Some t \<Rightarrow> and_then (strftime_utc env t) (\<lambda>exp_str. Inr (ck_value c, JStr exp_str))))"

fun cookie_entries :: "env \<Rightarrow> jar \<Rightarrow> string list \<Rightarrow> py_exn + (string \<times> json \<times> json) list" where
  "cookie_entries env j [] = Inr []"
| "cookie_entries env j (name # names) =
     and_then (cookie_entry env j name) (\<lambda>ve.
     and_then (cookie_entries env j names) (\<lambda>rest. Inr ((name, ve) # rest)))"

text \<open>The dict \<^verbatim>\<open>{name: {"value": v, "expires": e}, ...}\<close> of such entries.\<close>

definition info_dict :: "(string \<times> json \<times> json) list \<Rightarrow> json" where
  "info_dict entries =
     JObj (map (\<lambda>(name, v, e). (name, JObj [(''value'', v), (''expires'', e)])) entries)"

definition extract_login_cookies_with_expiry ::
  "env \<Rightarrow> world \<Rightarrow> py_exn + (string \<times> json \<times> json) list" where
  "extract_login_cookies_with_expiry env w =
     cookie_entries env (cl_cookies (w_session w)) cred_names"

subsection \<open>parse_login_info and parse_utc\<close>

text \<open>\<^verbatim>\<open>open(path, "r")\<close> and reading the text; \<^verbatim>\<open>open(path, "w")\<close> and writing a text.\<close>

definition open_read :: "world \<Rightarrow> string \<Rightarrow> py_exn + string" where
  "open_read w path =
     (case w_fs w path of
        None \<Rightarrow> Inl (Exn FileNotFoundError (''[Errno 2] No such file or directory: '' @ path))
      | Some (RegularFile t) \<Rightarrow> Inr t
      | Some Directory \<Rightarrow> Inl (Exn OSError (''[Errno 21] Is a directory: '' @ path))
      | Some (Blocked e) \<Rightarrow> Inl e)"

definition open_write :: "string \<Rightarrow> string \<Rightarrow> world \<Rightarrow> (py_exn + unit) \<times> world" where
  "open_write path t w =
     (case w_fs w path of
        Some Directory \<Rightarrow> (Inl (Exn OSError (''[Errno 21] Is a directory: '' @ path)), w)
      | Some (Blocked e) \<Rightarrow> (Inl e, w)
      | _ \<Rightarrow> (Inr (), w\<lparr>w_fs := (w_fs w)(path := Some (RegularFile t))\<rparr>))"

text \<open>
  \<^verbatim>\<open>parse_login_info\<close>. Python's \<^verbatim>\<open>None\<close> is \<open>JNull\<close>. Only a FileNotFoundError is caught.
\<close>

definition parse_login_info :: "env \<Rightarrow> string \<Rightarrow> world \<Rightarrow> (py_exn + json) \<times> world" where
  "parse_login_info env file_path w =
     (case open_read w file_path of
        Inl e \<Rightarrow>
          if exn_cls e = FileNotFoundError then (Inr JNull, print (msg_no_file file_path) w)
          else (Inl e, w)
      | Inr t \<Rightarrow>
          (case json_loads env t of
             Inl m \<Rightarrow> (Inl (Exn JSONDecodeError m), w)
           | Inr v \<Rightarrow> (Inr v, w)))"

definition parse_utc :: "env \<Rightarrow> json \<Rightarrow> py_exn + int" where
  "parse_utc env dt_str =
     (case dt_str of
        JStr s \<Rightarrow>
          (case strptime_utc env s of
             None \<Rightarrow> Inl (Exn ValueError (''time data '' @ [CHR 0x27] @ s @ [CHR 0x27] @
                       '' does not match format '' @ [CHR 0x27] @ ''%Y-%m-%d %H:%M:%S %Z'' @ [CHR 0x27]))
           | Some t \<Rightarrow> Inr t)
      | _ \<Rightarrow> Inl (Exn TypeError (''strptime() argument 1 must be str, not '' @ type_name dt_str)))"

subsection \<open>login\<close>

text \<open>
  The generator inside \<^verbatim>\<open>all(...)\<close>: a name whose expiry is \<^verbatim>\<open>None\<close> is skipped, for any
  other the parsed expiry is compared with \<^verbatim>\<open>now\<close>, and \<^verbatim>\<open>all\<close> stops at the first
  \<^verbatim>\<open>False\<close>. The source looks \<^verbatim>\<open>temp_info[name]["expires"]\<close> up twice with the same result.
\<close>

fun all_ok :: "env \<Rightarrow> json \<Rightarrow> string list \<Rightarrow> py_exn + bool" where
  "all_ok env temp_info [] = Inr True"
| "all_ok env temp_info (name # names) =
     and_then (py_getitem temp_info name) (\<lambda>entry.
     and_then (py_getitem entry ''expires'') (\<lambda>expires.
       if expires = JNull then all_ok env temp_info names
       else and_then (parse_utc env expires) (\<lambda>t.
              if utc_now env < t then all_ok env temp_info names else Inr False)))"

text \<open>The dict literal given to \<^verbatim>\<open>session.cookies.update\<close>.\<close>

fun cached_values :: "json \<Rightarrow> string list \<Rightarrow> py_exn + (string \<times> json) list" where
  "cached_values temp_info [] = Inr []"
| "cached_values temp_info (name # names) =
     and_then (py_getitem temp_info name) (\<lambda>entry.
     and_then (py_getitem entry ''value'') (\<lambda>v.
     and_then (cached_values temp_info names) (\<lambda>rest. Inr ((name, v) # rest))))"

text \<open>The body of the \<^verbatim>\<open>try\<close>: \<open>Some d\<close> when the cache is used, with the cookies to load.\<close>

definition try_cache :: "env \<Rightarrow> json \<Rightarrow> py_exn + (string \<times> json) list option" where
  "try_cache env temp_info =
     and_then (all_ok env temp_info cred_names) (\<lambda>ok.
       if ok then and_then (cached_values temp_info cred_names) (\<lambda>d. Inr (Some d))
       else Inr None)"

text \<open>
  \<^verbatim>\<open>if temp_info: try: ... except Exception: print(...)\<close>. The result \<open>Some info\<close> is the
  \<^verbatim>\<open>return temp_info\<close>; \<open>None\<close> means that control reaches the \<^verbatim>\<open>while\<close> loop.
\<close>

definition use_cache :: "env \<Rightarrow> json \<Rightarrow> world \<Rightarrow> (py_exn + json option) \<times> world" where
  "use_cache env temp_info w =
     (if \<not> py_truthy temp_info then (Inr None, w)
      else
        (case try_cache env temp_info of
           Inr (Some d) \<Rightarrow> (Inr (Some temp_info), print msg_cache_ok (cookies_update d w))
         | Inr None \<Rightarrow> (Inr None, w)
         | Inl e \<Rightarrow>
             if is_Exception (exn_cls e) then (Inr None, print msg_cache_bad w)
             else (Inl e, w)))"

text \<open>
  One pass through the body of the \<^verbatim>\<open>while True\<close> of \<^verbatim>\<open>login\<close>. \<^verbatim>\<open>exit(1)\<close> raises
  SystemExit. \<open>None\<close>: the poll loop inside has not ended within its fuel \<open>m\<close>.
\<close>

definition login_pass :: "nat \<Rightarrow> env \<Rightarrow> world \<Rightarrow> unit pass option \<times> world" where
  "login_pass m env w =
     (case get_qr_login env w of
        (Inl e, w1) \<Rightarrow> (Some (Done (Inl e)), w1)
      | (Inr (key, url), w1) \<Rightarrow>
          (case show_qr_terminal env url (print msg_scan_prompt w1) of
             (Inl e, w2) \<Rightarrow> (Some (Done (Inl e)), w2)
           | (Inr u, w2) \<Rightarrow>
               (case poll_login m env key 2 180 w2 of
                  (None, w3) \<Rightarrow> (None, w3)
                | (Some (Inr ok), w3) \<Rightarrow>
                    if ok then (Some (Done (Inr ())), w3) else (Some Again, w3)
                | (Some (Inl e), w3) \<Rightarrow>
                    if exn_cls e = TimeoutError then (Some Again, print msg_timeout_retry w3)
                    else if is_Exception (exn_cls e) then
                      (Some (Done (Inl (Exn SystemExit ''1''))),
                       print (msg_login_error (exn_str e)) w3)
                    else (Some (Done (Inl e)), w3))))"

text \<open>The loop, with fuel \<open>n\<close> for its own passes and \<open>m\<close> for each poll loop.\<close>

fun login_loop :: "nat \<Rightarrow> nat \<Rightarrow> env \<Rightarrow> world \<Rightarrow> (py_exn + unit) option \<times> world" where
  "login_loop 0 m env w = (None, w)"
| "login_loop (Suc n) m env w =
     (case login_pass m env w of
        (None, w1) \<Rightarrow> (None, w1)
      | (Some (Done r), w1) \<Rightarrow> (Some r, w1)
      | (Some Again, w1) \<Rightarrow> login_loop n m env w1)"

text \<open>\<^verbatim>\<open>os.makedirs("data", exist_ok=True)\<close>\<close>

definition makedirs_data :: "world \<Rightarrow> (py_exn + unit) \<times> world" where
  "makedirs_data w =
     (case w_fs w ''data'' of
        None \<Rightarrow> (Inr (), w\<lparr>w_fs := (w_fs w)(''data'' := Some Directory)\<rparr>)
      | Some Directory \<Rightarrow> (Inr (), w)
      | Some (RegularFile t) \<Rightarrow> (Inl (Exn OSError ''[Errno 17] File exists: data''), w)
      | Some (Blocked e) \<Rightarrow> (Inl e, w))"

definition cookie_line :: "env \<Rightarrow> string \<times> json \<times> json \<Rightarrow> string" where
  "cookie_line env kv =
     (case kv of (k, v, e) \<Rightarrow>
        ljust 10 k @ ''= '' @ fmt env v @ [CHR 0x0A] @ ''  expires: '' @ fmt env e)"

text \<open>After the loop: the cookies of the session are read, printed and written to the file.\<close>

definition login_finish :: "env \<Rightarrow> string \<Rightarrow> world \<Rightarrow> (py_exn + json) \<times> world" where
  "login_finish env file_path w =
     (case extract_login_cookies_with_expiry env w of
        Inl e \<Rightarrow> (Inl e, w)
      | Inr entries \<Rightarrow>
          (let w1 = fold (\<lambda>kv. print (cookie_line env kv)) entries (print msg_cookie_head w)
           in case open_write file_path (json_dumps env (info_dict entries)) w1 of
                (Inl e, w2) \<Rightarrow> (Inl e, w2)
              | (Inr u, w2) \<Rightarrow> (Inr (info_dict entries), w2)))"

definition qr_login ::
  "nat \<Rightarrow> nat \<Rightarrow> env \<Rightarrow> string \<Rightarrow> world \<Rightarrow> (py_exn + json) option \<times> world" where
  "qr_login n m env file_path w =
     (case login_loop n m env w of
        (None, w1) \<Rightarrow> (None, w1)
      | (Some (Inl e), w1) \<Rightarrow> (Some (Inl e), w1)
      | (Some (Inr u), w1) \<Rightarrow> (case login_finish env file_path w1 of (r, w2) \<Rightarrow> (Some r, w2)))"

definition login ::
  "nat \<Rightarrow> nat \<Rightarrow> env \<Rightarrow> string \<Rightarrow> world \<Rightarrow> (py_exn + json) option \<times> world" where
  "login n m env file_path w =
     (case makedirs_data w of
        (Inl e, w1) \<Rightarrow> (Some (Inl e), w1)
      | (Inr u, w1) \<Rightarrow>
          (case parse_login_info env file_path w1 of
             (Inl e, w2) \<Rightarrow> (Some (Inl e), w2)
           | (Inr temp_info, w2) \<Rightarrow>
               (case use_cache env temp_info w2 of
                  (Inl e, w3) \<Rightarrow> (Some (Inl e), w3)
                | (Inr (Some info), w3) \<Rightarrow> (Some (Inr info), w3)
                | (Inr None, w3) \<Rightarrow> qr_login n m env file_path w3)))"

section \<open>The credential file and the cached login\<close>

lemma and_then_simps [simp]:
  "and_then (Inl e) f = Inl e"
  "and_then (Inr x) f = f x"
  by (simp_all add: and_then_def)

lemma and_then_Inr_iff:
  "and_then r f = Inr y \<longleftrightarrow> (\<exists>x. r = Inr x \<and> f x = Inr y)"
  by (cases r) simp_all

lemma and_then_Inl_iff:
  "and_then r f = Inl e \<longleftrightarrow> r = Inl e \<or> (\<exists>x. r = Inr x \<and> f x = Inl e)"
  by (cases r) simp_all

subsection \<open>Claim C3\<close>

text \<open>
  C3. Loading the credential file: when the path does not exist the result is \<^verbatim>\<open>None\<close> and
  nothing is raised; when the file is there and its text is not valid JSON, the decoder's error
  (a \<^verbatim>\<open>json.JSONDecodeError\<close>) leaves \<^verbatim>\<open>parse_login_info\<close>, and leaves \<^verbatim>\<open>login\<close> as
  well, before any network call; a path that is there and cannot be opened raises its OSError.
\<close>

theorem parse_login_info_absent_or_malformed:
  "(w_fs w file_path = None \<longrightarrow>
      parse_login_info env file_path w = (Inr JNull, print (msg_no_file file_path) w))
 \<and> (\<forall>t m. w_fs w file_path = Some (RegularFile t) \<and> json_loads env t = Inl m \<longrightarrow>
      parse_login_info env file_path w = (Inl (Exn JSONDecodeError m), w) \<and>
      (\<forall>w0 n k. makedirs_data w0 = (Inr (), w) \<longrightarrow>
         login n k env file_path w0 = (Some (Inl (Exn JSONDecodeError m)), w)))
 \<and> (\<forall>e. w_fs w file_path = Some (Blocked e) \<and> exn_cls e \<noteq> FileNotFoundError \<longrightarrow>
      parse_login_info env file_path w = (Inl e, w))"
  by (simp add: parse_login_info_def open_read_def login_def)

definition creds_path :: string where
  "creds_path = ''data/login_info.json''"

definition json_of_example :: "string \<Rightarrow> string + json" where
  "json_of_example t =
     (if t = ''{}'' then Inr (JObj []) else Inl ''Expecting value: line 1 column 1 (char 0)'')"

definition files_env :: env where
  "files_env = (ex_env (\<lambda>n. Inl (Exn RequestException [])) (\<lambda>n. 0))\<lparr>json_loads := json_of_example\<rparr>"

definition world_with_file :: "fs_entry option \<Rightarrow> world" where
  "world_with_file f =
     (ex_world files_env)\<lparr>w_fs := (\<lambda>p. if p = ''data'' then Some Directory
                                        else if p = creds_path then f else None)\<rparr>"

theorem parse_login_info_absent_or_malformed_witness:
  "w_fs (world_with_file None) creds_path = None
   \<and> parse_login_info files_env creds_path (world_with_file None) =
       (Inr JNull, print (msg_no_file creds_path) (world_with_file None))
   \<and> w_fs (world_with_file (Some (RegularFile ''not json''))) creds_path = Some (RegularFile ''not json'')
   \<and> json_loads files_env ''not json'' = Inl ''Expecting value: line 1 column 1 (char 0)''
   \<and> parse_login_info files_env creds_path (world_with_file (Some (RegularFile ''not json''))) =
       (Inl (Exn JSONDecodeError ''Expecting value: line 1 column 1 (char 0)''),
        world_with_file (Some (RegularFile ''not json'')))
   \<and> makedirs_data (world_with_file (Some (RegularFile ''not json''))) =
       (Inr (), world_with_file (Some (RegularFile ''not json'')))
   \<and> login 1 1 files_env creds_path (world_with_file (Some (RegularFile ''not json''))) =
       (Some (Inl (Exn JSONDecodeError ''Expecting value: line 1 column 1 (char 0)'')),
        world_with_file (Some (RegularFile ''not json'')))"
proof -
  let ?bad = "world_with_file (Some (RegularFile ''not json''))"
  have a: "w_fs (world_with_file None) creds_path = None"
    by (simp add: world_with_file_def creds_path_def)
  have b: "w_fs ?bad creds_path = Some (RegularFile ''not json'')"
    by (simp add: world_with_file_def creds_path_def)
  have c: "json_loads files_env ''not json'' = Inl ''Expecting value: line 1 column 1 (char 0)''"
    by (simp add: files_env_def json_of_example_def)
  have d: "makedirs_data ?bad = (Inr (), ?bad)"
    by (simp add: makedirs_data_def world_with_file_def)
  show ?thesis
    using parse_login_info_absent_or_malformed [of "world_with_file None" creds_path files_env]
      parse_login_info_absent_or_malformed [of ?bad creds_path files_env] a b c d
    by blast
qed

subsection \<open>Claim C4\<close>

text \<open>
  The expiry of a credential field as a time, \<open>None\<close> when the field has none; and what makes a
  field of the decoded file well formed: the name is there, with an \<^verbatim>\<open>expires\<close> that is
  \<^verbatim>\<open>null\<close> or a text that \<^verbatim>\<open>strptime\<close> accepts.
\<close>

definition expires_at :: "env \<Rightarrow> json \<Rightarrow> string \<Rightarrow> int option" where
  "expires_at env info name =
     (case py_getitem info name of
        Inl e \<Rightarrow> None
      | Inr entry \<Rightarrow>
          (case py_getitem entry ''expires'' of
             Inr (JStr s) \<Rightarrow> strptime_utc env s
           | _ \<Rightarrow> None))"

definition field_ok :: "env \<Rightarrow> json \<Rightarrow> string \<Rightarrow> bool" where
  "field_ok env info name =
     (case py_getitem info name of
        Inl e \<Rightarrow> False
      | Inr entry \<Rightarrow>
          (case py_getitem entry ''expires'' of
             Inr JNull \<Rightarrow> True
           | Inr (JStr s) \<Rightarrow> strptime_utc env s \<noteq> None
           | _ \<Rightarrow> False))"

lemma all_ok_usable:
  "list_all (field_ok env info) names \<Longrightarrow>
   all_ok env info names =
     Inr (list_all (\<lambda>name. case expires_at env info name of None \<Rightarrow> True | Some t \<Rightarrow> utc_now env < t) names)"
proof (induction names)
  case Nil
  then show ?case by simp
next
  case (Cons name names)
  then have ok: "field_ok env info name" and rest: "list_all (field_ok env info) names"
    by simp_all
  from ok obtain entry where e: "py_getitem info name = Inr entry"
    by (auto simp: field_ok_def split: sum.splits)
  from ok e consider "py_getitem entry ''expires'' = Inr JNull"
    | s t where "py_getitem entry ''expires'' = Inr (JStr s)" "strptime_utc env s = Some t"
    by (auto simp: field_ok_def split: sum.splits json.splits)
  then show ?case
  proof cases
    case 1
    with e Cons.IH [OF rest] show ?thesis
      by (simp add: expires_at_def)
  next
    case 2
    with e Cons.IH [OF rest] show ?thesis
      by (simp add: expires_at_def parse_utc_def)
  qed
qed

text \<open>
  C4. For a credential set whose three fields are well formed, the usability check of
  \<^verbatim>\<open>login\<close> (the value of \<^verbatim>\<open>all_ok\<close>) is true exactly when every field that has an expiry
  has one later than now; a field without expiry never makes it false.
\<close>

theorem all_ok_iff_unexpired:
  assumes "\<forall>name \<in> set cred_names. field_ok env info name"
  shows "all_ok env info cred_names =
           Inr (\<forall>name \<in> set cred_names. \<forall>t. expires_at env info name = Some t \<longrightarrow> utc_now env < t)"
proof -
  from assms have "list_all (field_ok env info) cred_names"
    by (simp add: list_all_iff)
  then have "all_ok env info cred_names =
     Inr (list_all (\<lambda>name. case expires_at env info name of None \<Rightarrow> True | Some t \<Rightarrow> utc_now env < t) cred_names)"
    by (rule all_ok_usable)
  also have "list_all (\<lambda>name. case expires_at env info name of None \<Rightarrow> True | Some t \<Rightarrow> utc_now env < t) cred_names
       \<longleftrightarrow> (\<forall>name \<in> set cred_names. \<forall>t. expires_at env info name = Some t \<longrightarrow> utc_now env < t)"
    by (auto simp: list_all_iff split: option.splits)
  finally show ?thesis .
qed


text \<open>A clock reading 2025-11-03 12:00:00 UTC and a \<^verbatim>\<open>strptime\<close> that knows two texts.\<close>

definition strptime_example :: "string \<Rightarrow> int option" where
  "strptime_example s =
     (if s = ''2026-05-01 08:23:45 UTC'' then Some 1777623825
      else if s = ''2025-07-12 08:23:45 UTC'' then Some 1752308625
      else None)"

definition creds_env :: env where
  "creds_env = files_env\<lparr>utc_now := 1762171200, strptime_utc := strptime_example\<rparr>"

definition cred_field :: "string \<Rightarrow> json \<Rightarrow> json" where
  "cred_field v e = JObj [(''value'', JStr v), (''expires'', e)]"

definition creds_fresh :: json where
  "creds_fresh = JObj
     [(''SESSDATA'', cred_field ''abc'' (JStr ''2026-05-01 08:23:45 UTC'')),
      (''bili_jct'', cred_field ''def'' JNull),
      (''DedeUserID'', cred_field ''42'' (JStr ''2026-05-01 08:23:45 UTC''))]"

definition creds_stale :: json where
  "creds_stale = JObj
     [(''SESSDATA'', cred_field ''abc'' (JStr ''2026-05-01 08:23:45 UTC'')),
      (''bili_jct'', cred_field ''def'' JNull),
      (''DedeUserID'', cred_field ''42'' (JStr ''2025-07-12 08:23:45 UTC''))]"

lemmas creds_defs = creds_env_def strptime_example_def cred_field_def cred_names_def
  field_ok_def expires_at_def

theorem all_ok_iff_unexpired_witness:
  "list_all (field_ok creds_env creds_fresh) cred_names
   \<and> all_ok creds_env creds_fresh cred_names = Inr True
   \<and> list_all (field_ok creds_env creds_stale) cred_names
   \<and> all_ok creds_env creds_stale cred_names = Inr False"
proof -
  have f: "\<forall>name \<in> set cred_names. field_ok creds_env creds_fresh name"
    by (simp add: creds_defs creds_fresh_def)
  have s: "\<forall>name \<in> set cred_names. field_ok creds_env creds_stale name"
    by (simp add: creds_defs creds_stale_def)
  have "all_ok creds_env creds_fresh cred_names = Inr True"
    unfolding all_ok_iff_unexpired [OF f] by (simp add: creds_defs creds_fresh_def)
  moreover have "all_ok creds_env creds_stale cred_names = Inr False"
    unfolding all_ok_iff_unexpired [OF s] by (simp add: creds_defs creds_stale_def)
  ultimately show ?thesis using f s by (simp add: list_all_iff)
qed

subsection \<open>Claim C10\<close>

lemma py_getitem_exn: "py_getitem v k = Inl e \<Longrightarrow> is_Exception (exn_cls e)"
  by (cases v) (auto split: option.splits)

lemma parse_utc_exn: "parse_utc env v = Inl e \<Longrightarrow> is_Exception (exn_cls e)"
  by (auto simp: parse_utc_def split: json.splits option.splits)

lemma all_ok_exn: "all_ok env info names = Inl e \<Longrightarrow> is_Exception (exn_cls e)"
proof (induction names)
  case Nil
  then show ?case by simp
next
  case (Cons name names)
  then show ?case
    by (auto simp: and_then_Inl_iff split: if_splits dest: py_getitem_exn parse_utc_exn)
qed

lemma cached_values_exn: "cached_values info names = Inl e \<Longrightarrow> is_Exception (exn_cls e)"
proof (induction names arbitrary: e)
  case Nil
  then show ?case by simp
next
  case (Cons name names)
  then show ?case
    by (auto simp: and_then_Inl_iff dest: py_getitem_exn)
qed

text \<open>
  C10. When the credential file decodes to a value that counts as true and evaluating
  \<^verbatim>\<open>all_ok\<close> raises, the exception is an \<^verbatim>\<open>Exception\<close>, the \<^verbatim>\<open>except\<close> clause swallows it, and
  \<^verbatim>\<open>login\<close> goes on with the QR flow from the same world plus one printed line: nothing is
  raised to the caller. This is where \<^verbatim>\<open>login\<close> also goes for a missing file, and for
  credentials that are well formed and expired.
\<close>

theorem login_swallows_cache_errors:
  assumes "makedirs_data w = (Inr (), w1)"
    and "parse_login_info env file_path w1 = (Inr temp_info, w2)"
    and "py_truthy temp_info"
    and "all_ok env temp_info cred_names = Inl e"
  shows "is_Exception (exn_cls e)
       \<and> use_cache env temp_info w2 = (Inr None, print msg_cache_bad w2)
       \<and> login n m env file_path w = qr_login n m env file_path (print msg_cache_bad w2)
       \<and> (\<forall>w3. w_fs w3 file_path = None \<longrightarrow> makedirs_data w = (Inr (), w3) \<longrightarrow>
            login n m env file_path w = qr_login n m env file_path (print (msg_no_file file_path) w3))
       \<and> (\<forall>info. py_truthy info \<longrightarrow> all_ok env info cred_names = Inr False \<longrightarrow>
            parse_login_info env file_path w1 = (Inr info, w2) \<longrightarrow>
            login n m env file_path w = qr_login n m env file_path w2)"
proof -
  have ex: "is_Exception (exn_cls e)"
    using assms(4) by (rule all_ok_exn)
  have uc: "use_cache env temp_info w2 = (Inr None, print msg_cache_bad w2)"
    using assms(3,4) ex by (simp add: use_cache_def try_cache_def)
  have l: "login n m env file_path w = qr_login n m env file_path (print msg_cache_bad w2)"
    using assms(1,2) uc by (simp add: login_def)
  have a: "login n m env file_path w = qr_login n m env file_path (print (msg_no_file file_path) w3)"
    if "w_fs w3 file_path = None" "makedirs_data w = (Inr (), w3)" for w3
    using that by (simp add: login_def parse_login_info_def open_read_def use_cache_def)
  have x: "login n m env file_path w = qr_login n m env file_path w2"
    if "py_truthy info" "all_ok env info cred_names = Inr False"
      "parse_login_info env file_path w1 = (Inr info, w2)" for info
    using that assms(1) by (simp add: login_def use_cache_def try_cache_def)
  show ?thesis
    using ex uc l a x by blast
qed


text \<open>Three decoded files, one for each way the check can raise.\<close>

definition creds_missing_name :: json where
  "creds_missing_name = JObj
     [(''SESSDATA'', cred_field ''abc'' JNull),
      (''DedeUserID'', cred_field ''42'' JNull)]"

definition creds_bad_expiry :: json where
  "creds_bad_expiry = JObj
     [(''SESSDATA'', cred_field ''abc'' (JStr ''2026/05/01'')),
      (''bili_jct'', cred_field ''def'' JNull),
      (''DedeUserID'', cred_field ''42'' JNull)]"

definition creds_entry_not_dict :: json where
  "creds_entry_not_dict = JObj
     [(''SESSDATA'', JStr ''abc''), (''bili_jct'', JStr ''def''), (''DedeUserID'', JStr ''42'')]"

definition cache_env :: "json \<Rightarrow> env" where
  "cache_env info = creds_env\<lparr>json_loads := (\<lambda>t. Inr info)\<rparr>"

definition cache_world :: world where
  "cache_world = world_with_file (Some (RegularFile ''{...}''))"

lemma cache_world_steps:
  "makedirs_data cache_world = (Inr (), cache_world)"
  "parse_login_info (cache_env info) creds_path cache_world = (Inr info, cache_world)"
  by (simp_all add: makedirs_data_def parse_login_info_def open_read_def cache_world_def
      world_with_file_def cache_env_def creds_path_def)

theorem login_swallows_cache_errors_witness:
  "all_ok (cache_env creds_missing_name) creds_missing_name cred_names =
      Inl (Exn KeyError ([CHR 0x27] @ ''bili_jct'' @ [CHR 0x27]))
   \<and> login 1 1 (cache_env creds_missing_name) creds_path cache_world =
      qr_login 1 1 (cache_env creds_missing_name) creds_path (print msg_cache_bad cache_world)
   \<and> exn_cls (projl (all_ok (cache_env creds_bad_expiry) creds_bad_expiry cred_names)) = ValueError
   \<and> login 1 1 (cache_env creds_bad_expiry) creds_path cache_world =
      qr_login 1 1 (cache_env creds_bad_expiry) creds_path (print msg_cache_bad cache_world)
   \<and> exn_cls (projl (all_ok (cache_env creds_entry_not_dict) creds_entry_not_dict cred_names)) = TypeError
   \<and> login 1 1 (cache_env creds_entry_not_dict) creds_path cache_world =
      qr_login 1 1 (cache_env creds_entry_not_dict) creds_path (print msg_cache_bad cache_world)"
proof -
  have t: "py_truthy creds_missing_name" "py_truthy creds_bad_expiry" "py_truthy creds_entry_not_dict"
    by (simp_all add: creds_missing_name_def creds_bad_expiry_def creds_entry_not_dict_def)
  have a: "all_ok (cache_env creds_missing_name) creds_missing_name cred_names =
      Inl (Exn KeyError ([CHR 0x27] @ ''bili_jct'' @ [CHR 0x27]))"
    by (simp add: creds_missing_name_def cred_names_def cred_field_def)
  obtain m where b: "all_ok (cache_env creds_bad_expiry) creds_bad_expiry cred_names =
      Inl (Exn ValueError m)"
    by (simp add: creds_bad_expiry_def cred_names_def cred_field_def parse_utc_def cache_env_def
        creds_env_def strptime_example_def)
  obtain k where c: "all_ok (cache_env creds_entry_not_dict) creds_entry_not_dict cred_names =
      Inl (Exn TypeError k)"
    by (simp add: creds_entry_not_dict_def cred_names_def)
  show ?thesis
    using login_swallows_cache_errors [OF cache_world_steps(1) cache_world_steps(2) t(1) a, of 1 1]
      login_swallows_cache_errors [OF cache_world_steps(1) cache_world_steps(2) t(2) b, of 1 1]
      login_swallows_cache_errors [OF cache_world_steps(1) cache_world_steps(2) t(3) c, of 1 1]
      a b c
    by simp
qed

section \<open>utils.py: get_bv_info\<close>

subsection \<open>The search for the embedded manifest\<close>

text \<open>
  The pattern is \<^verbatim>\<open>window\.__playinfo__\s*=\s*({.+?})\s*</script>\<close> with \<^verbatim>\<open>re.S\<close>. On a str,
  \<^verbatim>\<open>\s\<close> matches the code points 9 to 13, 28 to 32, U+0085, U+00A0, U+1680, U+2000 to U+200A,
  U+2028, U+2029, U+202F, U+205F and U+3000; here they are their UTF-8 encodings.
\<close>

definition is_ws1 :: "char \<Rightarrow> bool" where
  "is_ws1 a \<longleftrightarrow> (let n = (of_char a :: nat) in (9 \<le> n \<and> n \<le> 13) \<or> (28 \<le> n \<and> n \<le> 32))"

definition is_ws2 :: "char \<Rightarrow> char \<Rightarrow> bool" where
  "is_ws2 a b \<longleftrightarrow> a = CHR 0xC2 \<and> (b = CHR 0x85 \<or> b = CHR 0xA0)"

definition is_ws3 :: "char \<Rightarrow> char \<Rightarrow> char \<Rightarrow> bool" where
  "is_ws3 a b c \<longleftrightarrow>
     (a = CHR 0xE1 \<and> b = CHR 0x9A \<and> c = CHR 0x80) \<or>
     (a = CHR 0xE2 \<and> b = CHR 0x80 \<and>
        ((0x80 \<le> (of_char c :: nat) \<and> (of_char c :: nat) \<le> 0x8A) \<or>
         c = CHR 0xA8 \<or> c = CHR 0xA9 \<or> c = CHR 0xAF)) \<or>
     (a = CHR 0xE2 \<and> b = CHR 0x81 \<and> c = CHR 0x9F) \<or>
     (a = CHR 0xE3 \<and> b = CHR 0x80 \<and> c = CHR 0x80)"

text \<open>\<^verbatim>\<open>\s*\<close> before a character that is no whitespace: the text after all leading whitespace.\<close>

fun skip_ws :: "string \<Rightarrow> string" where
  "skip_ws (a # b # c # r) =
     (if is_ws1 a then skip_ws (b # c # r)
      else if is_ws2 a b then skip_ws (c # r)
      else if is_ws3 a b c then skip_ws r
      else a # b # c # r)"
| "skip_ws [a, b] =
     (if is_ws1 a then skip_ws [b] else if is_ws2 a b then [] else [a, b])"
| "skip_ws [a] = (if is_ws1 a then [] else [a])"
| "skip_ws [] = []"

text \<open>
  \<^verbatim>\<open>.+?}\s*</script>\<close> after the opening brace: the shortest non-empty text that is followed by
  a closing brace, optional whitespace and \<^verbatim>\<open></script>\<close>. \<open>acc\<close> is what \<^verbatim>\<open>.+?\<close> has taken
  so far, in reverse.
\<close>

fun lazy_body :: "string \<Rightarrow> string \<Rightarrow> string option" where
  "lazy_body acc [] = None"
| "lazy_body acc (c # cs) =
     (if acc \<noteq> [] \<and> c = CHR ''}'' \<and> prefix ''</script>'' (skip_ws cs) then Some (rev acc)
      else lazy_body (c # acc) cs)"

text \<open>The pattern matched at the start of a text: group 1, braces included.\<close>

definition strip_prefix :: "string \<Rightarrow> string \<Rightarrow> string option" where
  "strip_prefix p s = (if prefix p s then Some (drop (length p) s) else None)"

definition match_playinfo :: "string \<Rightarrow> string option" where
  "match_playinfo s =
     (case strip_prefix ''window.__playinfo__'' s of
        None \<Rightarrow> None
      | Some r1 \<Rightarrow>
          (case strip_prefix ''='' (skip_ws r1) of
             None \<Rightarrow> None
           | Some r2 \<Rightarrow>
               (case strip_prefix ''{'' (skip_ws r2) of
                  None \<Rightarrow> None
                | Some r3 \<Rightarrow>
                    (case lazy_body [] r3 of
                       None \<Rightarrow> None
                     | Some body \<Rightarrow> Some (''{'' @ body @ ''}'')))))"

text \<open>\<^verbatim>\<open>re.search\<close>: the match at the leftmost position that has one.\<close>

fun search_playinfo :: "string \<Rightarrow> string option" where
  "search_playinfo [] = match_playinfo []"
| "search_playinfo (c # cs) =
     (case match_playinfo (c # cs) of
        Some g \<Rightarrow> Some g
      | None \<Rightarrow> search_playinfo cs)"

subsection \<open>Reading the manifest\<close>

text \<open>\<^verbatim>\<open>x.get(key, default)\<close>: only a dict has the method.\<close>

definition py_get :: "json \<Rightarrow> string \<Rightarrow> json \<Rightarrow> py_exn + json" where
  "py_get x key dflt =
     (case x of
        JObj kvs \<Rightarrow> (case map_of kvs key of None \<Rightarrow> Inr dflt | Some v \<Rightarrow> Inr v)
      | _ \<Rightarrow> Inl (Exn AttributeError ([CHR 0x27] @ type_name x @ [CHR 0x27] @
                 '' object has no attribute '' @ [CHR 0x27] @ ''get'' @ [CHR 0x27])))"

text \<open>The first code point of a str in UTF-8.\<close>

definition first_char :: "string \<Rightarrow> string" where
  "first_char s =
     (let n = (of_char (hd s) :: nat)
      in take (if n < 0x80 then 1 else if n < 0xE0 then 2 else if n < 0xF0 then 3 else 4) s)"

text \<open>\<^verbatim>\<open>x[0]\<close>\<close>

definition py_first :: "json \<Rightarrow> py_exn + json" where
  "py_first x =
     (case x of
        JArr xs \<Rightarrow>
          (case xs of
             [] \<Rightarrow> Inl (Exn IndexError ''list index out of range'')
           | y # ys \<Rightarrow> Inr y)
      | JStr s \<Rightarrow>
          (if s = [] then Inl (Exn IndexError ''string index out of range'')
           else Inr (JStr (first_char s)))
      | JObj kvs \<Rightarrow> Inl (Exn KeyError ''0'')
      | _ \<Rightarrow> Inl (Exn TypeError ([CHR 0x27] @ type_name x @ [CHR 0x27] @
                 '' object is not subscriptable'')))"

text \<open>
  From the text of group 1 to \<^verbatim>\<open>(video_url, audio_url, qualities)\<close>: \<^verbatim>\<open>json.loads\<close>, then
  the chains of \<^verbatim>\<open>get\<close> and \<^verbatim>\<open>[0]\<close>.
\<close>

definition streams_of :: "env \<Rightarrow> string \<Rightarrow> py_exn + json \<times> json \<times> json" where
  "streams_of env g =
     (case json_loads env g of
        Inl m \<Rightarrow> Inl (Exn JSONDecodeError m)
      | Inr playinfo \<Rightarrow>
          and_then (py_get playinfo ''data'' (JObj [])) (\<lambda>data.
          and_then (py_get data ''dash'' (JObj [])) (\<lambda>dash.
          and_then (py_get dash ''video'' (JArr [JObj []])) (\<lambda>videos.
          and_then (py_first videos) (\<lambda>video.
          and_then (py_get video ''baseUrl'' JNull) (\<lambda>video_url.
          and_then (py_get dash ''audio'' (JArr [JObj []])) (\<lambda>audios.
          and_then (py_first audios) (\<lambda>audio.
          and_then (py_get audio ''baseUrl'' JNull) (\<lambda>audio_url.
          and_then (py_get playinfo ''data'' (JObj [])) (\<lambda>data2.
          and_then (py_get data2 ''accept_quality'' (JArr [])) (\<lambda>qualities.
            Inr (video_url, audio_url, qualities))))))))))))"

text \<open>\<^verbatim>\<open>info_resp.json().get("data", {}).get("title", "")\<close>\<close>

definition title_of :: "response \<Rightarrow> py_exn + json" where
  "title_of info_resp =
     and_then (json_body info_resp) (\<lambda>js.
     and_then (py_get js ''data'' (JObj [])) (\<lambda>data.
     py_get data ''title'' (JStr [])))"

subsection \<open>get_bv_info\<close>

definition msg_page_failed :: string where
  "msg_page_failed = [CHR 0xE6, CHR 0x97, CHR 0xA0, CHR 0xE6, CHR 0xB3, CHR 0x95, CHR 0xE8, CHR 0x8E,
     CHR 0xB7, CHR 0xE5, CHR 0x8F, CHR 0x96, CHR 0xE8, CHR 0xA7, CHR 0x86, CHR 0xE9, CHR 0xA2, CHR 0x91,
     CHR 0xE9, CHR 0xA1, CHR 0xB5, CHR 0xE9, CHR 0x9D, CHR 0xA2] @ '' HTML: ''"

definition msg_no_playinfo :: string where
  "msg_no_playinfo = [CHR 0xE6, CHR 0x97, CHR 0xA0, CHR 0xE6, CHR 0xB3, CHR 0x95, CHR 0xE4, CHR 0xBB,
     CHR 0x8E] @ '' HTML '' @ [CHR 0xE4, CHR 0xB8, CHR 0xAD, CHR 0xE6, CHR 0x8F, CHR 0x90, CHR 0xE5,
     CHR 0x8F, CHR 0x96] @ '' playinfo '' @ [CHR 0xE6, CHR 0x95, CHR 0xB0, CHR 0xE6, CHR 0x8D, CHR 0xAE]"

definition msg_info_failed :: string where
  "msg_info_failed = [CHR 0xE6, CHR 0x97, CHR 0xA0, CHR 0xE6, CHR 0xB3, CHR 0x95, CHR 0xE8, CHR 0x8E,
     CHR 0xB7, CHR 0xE5, CHR 0x8F, CHR 0x96, CHR 0xE8, CHR 0xA7, CHR 0x86, CHR 0xE9, CHR 0xA2, CHR 0x91,
     CHR 0xE4, CHR 0xBF, CHR 0xA1, CHR 0xE6, CHR 0x81, CHR 0xAF] @ '': ''"

text \<open>\<^verbatim>\<open>except RequestException as e: raise RuntimeError(f"...{e}")\<close>\<close>

definition reraise :: "string \<Rightarrow> py_exn \<Rightarrow> py_exn" where
  "reraise msg e =
     (if is_RequestException (exn_cls e) then Exn RuntimeError (msg @ exn_str e) else e)"

text \<open>The dict that \<^verbatim>\<open>get_bv_info\<close> returns; the two lambdas are kept by the dicts they return.\<close>

record bv_info =
  title :: json
  video_url :: json
  audio_url :: json
  accept_quality :: json
  get_video_infos :: "(string \<times> json) list"
  get_audio_infos :: "(string \<times> json) list"

definition page_url :: "string \<Rightarrow> string" where
  "page_url bvid = ''https://www.bilibili.com/video/'' @ bvid"

definition info_api :: "string \<Rightarrow> string" where
  "info_api bvid = ''https://api.bilibili.com/x/web-interface/view?bvid='' @ bvid"

definition get_bv_info ::
  "env \<Rightarrow> string \<Rightarrow> json \<Rightarrow> json \<Rightarrow> json \<Rightarrow> world \<Rightarrow> (py_exn + bv_info) \<times> world" where
  "get_bv_info env bvid sessdata bili_jct dede_user_id w =
     (case safe_get env (page_url bvid) [(''timeout'', KInt 10)]
             (cookies_update [(''SESSDATA'', sessdata), (''bili_jct'', bili_jct),
                              (''DedeUserID'', dede_user_id)] w) of
        (Inl e, w1) \<Rightarrow> (Inl (reraise msg_page_failed e), w1)
      | (Inr resp, w1) \<Rightarrow>
          (case search_playinfo (resp_text resp) of
             None \<Rightarrow> (Inl (Exn RuntimeError msg_no_playinfo), w1)
           | Some g \<Rightarrow>
               (case streams_of env g of
                  Inl e \<Rightarrow> (Inl e, w1)
                | Inr (v_url, a_url, qualities) \<Rightarrow>
                    (case safe_get env (info_api bvid) [(''timeout'', KInt 5)] w1 of
                       (Inl e, w2) \<Rightarrow> (Inl (reraise msg_info_failed e), w2)
                     | (Inr info_resp, w2) \<Rightarrow>
                         (case title_of info_resp of
                            Inl e \<Rightarrow> (Inl (reraise msg_info_failed e), w2)
                          | Inr t \<Rightarrow>
                              (Inr \<lparr>title = t, video_url = v_url, audio_url = a_url,
                                    accept_quality = qualities,
                                    get_video_infos =
                                      [(''bvid'', JStr bvid), (''title'', t), (''video_url'', v_url)],
                                    get_audio_infos =
                                      [(''bvid'', JStr bvid), (''title'', t), (''audio_url'', a_url)]\<rparr>,
                               w2))))))"

subsection \<open>The calls of a fetch\<close>

lemma safe_get_calls:
  assumes "safe_get env url kw w = (r, w')"
  shows "\<exists>cs. w_log w' = w_log w @ cs \<and> cs \<noteq> [] \<and> length cs \<le> 3 \<and> (\<forall>c \<in> set cs. c_url c = url)"
proof -
  have "w' = after_tier1 env url kw w \<or> w' = after_tier2 env url kw w \<or> w' = after_tier3 env url kw w"
    using assms by (auto simp: safe_get_unfold split: sum.splits if_splits)
  then show ?thesis
    by (auto simp: tier_defs)
qed

subsection \<open>Claim C9\<close>

lemma match_playinfo_prefix: "match_playinfo s = Some g \<Longrightarrow> prefix ''window.__playinfo__'' s"
  by (simp add: match_playinfo_def strip_prefix_def split: option.splits if_splits)

lemma search_playinfo_marker:
  "search_playinfo s = Some g \<Longrightarrow> sublist ''window.__playinfo__'' s"
proof (induction s)
  case Nil
  then show ?case
    by (simp add: match_playinfo_def strip_prefix_def)
next
  case (Cons c cs)
  show ?case
  proof (cases "match_playinfo (c # cs)")
    case None
    with Cons have "sublist ''window.__playinfo__'' cs" by simp
    then show ?thesis unfolding sublist_Cons_right [of _ c cs] by (rule disjI2)
  next
    case (Some g')
    then have "prefix ''window.__playinfo__'' (c # cs)" by (rule match_playinfo_prefix)
    then show ?thesis by (rule prefix_imp_sublist)
  qed
qed

text \<open>A page without the text \<^verbatim>\<open>window.__playinfo__\<close> has no match.\<close>

lemma no_marker_no_match:
  "\<not> sublist ''window.__playinfo__'' s \<Longrightarrow> search_playinfo s = None"
  using search_playinfo_marker [of s] by (cases "search_playinfo s") auto

text \<open>
  C9. When the page was fetched and its text has no match of the manifest pattern, the
  resolution raises the RuntimeError of the missing manifest from the world the page fetch left:
  the only calls it has issued are the one to three attempts at the page URL, and the request
  for the title is not among them.
\<close>

theorem get_bv_info_no_manifest:
  assumes "safe_get env (page_url bvid) [(''timeout'', KInt 10)]
             (cookies_update [(''SESSDATA'', sessdata), (''bili_jct'', bili_jct),
                              (''DedeUserID'', dede_user_id)] w) = (Inr resp, w1)"
    and "search_playinfo (resp_text resp) = None"
  shows "get_bv_info env bvid sessdata bili_jct dede_user_id w =
           (Inl (Exn RuntimeError msg_no_playinfo), w1)
       \<and> (\<exists>cs. w_log w1 = w_log w @ cs \<and> length cs \<le> 3 \<and>
             list_all (\<lambda>c. c_url c = page_url bvid \<and> c_url c \<noteq> info_api bvid) cs)"
proof -
  have a: "get_bv_info env bvid sessdata bili_jct dede_user_id w =
           (Inl (Exn RuntimeError msg_no_playinfo), w1)"
    using assms by (simp add: get_bv_info_def)
  obtain cs where cs: "w_log w1 = w_log (cookies_update [(''SESSDATA'', sessdata),
      (''bili_jct'', bili_jct), (''DedeUserID'', dede_user_id)] w) @ cs"
    "length cs \<le> 3" "\<forall>c \<in> set cs. c_url c = page_url bvid"
    using safe_get_calls [OF assms(1)] by blast
  have "page_url bvid \<noteq> info_api bvid"
    by (simp add: page_url_def info_api_def)
  with cs have "w_log w1 = w_log w @ cs \<and> length cs \<le> 3 \<and>
      list_all (\<lambda>c. c_url c = page_url bvid \<and> c_url c \<noteq> info_api bvid) cs"
    by (simp add: cookies_update_def list_all_iff)
  with a show ?thesis by blast
qed

subsection \<open>Claim C8\<close>

text \<open>
  C8. When the page was fetched, its text has a match of the manifest pattern that decodes to a
  dict whose \<^verbatim>\<open>data.dash\<close> lists at least one video and one audio representation, and the
  title request succeeds, the resolution returns the \<^verbatim>\<open>baseUrl\<close> of the first video, the
  \<^verbatim>\<open>baseUrl\<close> of the first audio and the whole \<^verbatim>\<open>accept_quality\<close>, whatever else the two
  lists hold.
\<close>

theorem get_bv_info_first_streams:
  assumes "safe_get env (page_url bvid) [(''timeout'', KInt 10)]
             (cookies_update [(''SESSDATA'', sessdata), (''bili_jct'', bili_jct),
                              (''DedeUserID'', dede_user_id)] w) = (Inr resp, w1)"
    and "search_playinfo (resp_text resp) = Some g"
    and "json_loads env g = Inr (JObj playinfo)"
    and "map_of playinfo ''data'' = Some (JObj data)"
    and "map_of data ''dash'' = Some (JObj dash)"
    and "map_of dash ''video'' = Some (JArr (JObj v # vs))"
    and "map_of v ''baseUrl'' = Some v_url"
    and "map_of dash ''audio'' = Some (JArr (JObj a # as))"
    and "map_of a ''baseUrl'' = Some a_url"
    and "map_of data ''accept_quality'' = Some qualities"
    and "safe_get env (info_api bvid) [(''timeout'', KInt 5)] w1 = (Inr info_resp, w2)"
    and "title_of info_resp = Inr t"
  shows "get_bv_info env bvid sessdata bili_jct dede_user_id w =
           (Inr \<lparr>title = t, video_url = v_url, audio_url = a_url, accept_quality = qualities,
                 get_video_infos = [(''bvid'', JStr bvid), (''title'', t), (''video_url'', v_url)],
                 get_audio_infos = [(''bvid'', JStr bvid), (''title'', t), (''audio_url'', a_url)]\<rparr>,
            w2)"
proof -
  have "streams_of env g = Inr (v_url, a_url, qualities)"
    using assms(3-10) by (simp add: streams_of_def py_get_def py_first_def)
  then show ?thesis
    using assms(1,2,11,12) by (simp add: get_bv_info_def)
qed


text \<open>A page with one video and one audio representation, and the answer of the title request.\<close>

definition demo_manifest :: string where
  "demo_manifest = ''{\"data\":{\"accept_quality\":[120,80,64],\"dash\":{\"video\":[{\"baseUrl\":\"V1\"}],\"audio\":[{\"baseUrl\":\"A1\"}]}}}''"

definition demo_playinfo :: "(string \<times> json) list" where
  "demo_playinfo =
     [(''data'', JObj
        [(''accept_quality'', JArr [JInt 120, JInt 80, JInt 64]),
         (''dash'', JObj
            [(''video'', JArr [JObj [(''baseUrl'', JStr ''V1'')]]),
             (''audio'', JArr [JObj [(''baseUrl'', JStr ''A1'')]])])])]"

definition demo_page :: response where
  "demo_page = ex_response 200 ''OK''
     (''<html><script>window.__playinfo__='' @ demo_manifest @ ''</script></html>'') (Inl (Exn InvalidJSONError []))"

definition plain_page :: response where
  "plain_page = ex_response 200 ''OK'' ''<html><body>video not found</body></html>''
     (Inl (Exn InvalidJSONError []))"

definition demo_view :: response where
  "demo_view = ex_response 200 ''OK'' []
     (Inr (JObj [(''code'', JInt 0), (''data'', JObj [(''title'', JStr ''Demo'')])]))"

definition resolve_env :: "response \<Rightarrow> env" where
  "resolve_env page =
     (ex_env (script_of [Inr page, Inr demo_view] (Inl (Exn RequestException []))) (\<lambda>n. 0))
       \<lparr>json_loads := (\<lambda>t. if t = demo_manifest then Inr (JObj demo_playinfo) else Inl ''Expecting value'')\<rparr>"

definition demo_bvid :: string where
  "demo_bvid = ''BV1GJ411x7h7''"

definition with_cookies :: "env \<Rightarrow> world" where
  "with_cookies env = cookies_update
     [(''SESSDATA'', JStr ''abc''), (''bili_jct'', JStr ''def''), (''DedeUserID'', JStr ''42'')]
     (ex_world env)"

definition page_fetched :: "env \<Rightarrow> world" where
  "page_fetched env = after_tier1 env (page_url demo_bvid) [(''timeout'', KInt 10)] (with_cookies env)"

definition view_fetched :: "env \<Rightarrow> world" where
  "view_fetched env = after_tier1 env (info_api demo_bvid) [(''timeout'', KInt 5)] (page_fetched env)"

lemma resolve_env_fetches:
  "safe_get (resolve_env page) (page_url demo_bvid) [(''timeout'', KInt 10)]
     (cookies_update [(''SESSDATA'', JStr ''abc''), (''bili_jct'', JStr ''def''),
        (''DedeUserID'', JStr ''42'')] (ex_world (resolve_env page))) =
     (check_status (Inr page), page_fetched (resolve_env page))"
  "safe_get (resolve_env page) (info_api demo_bvid) [(''timeout'', KInt 5)] (page_fetched (resolve_env page)) =
     (Inr demo_view, view_fetched (resolve_env page))"
  if "check_status (Inr page) = Inr page"
  using that
  by (simp_all add: safe_get_unfold page_fetched_def view_fetched_def with_cookies_def
      cookies_update_def ex_world_log resolve_env_def ex_env_def after_tier1_def check_status_def
      demo_view_def ex_response_def raise_for_status_def)

lemma pages_ok:
  "check_status (Inr demo_page) = Inr demo_page" "check_status (Inr plain_page) = Inr plain_page"
  by (simp_all add: check_status_def raise_for_status_def demo_page_def plain_page_def ex_response_def)

lemma demo_page_match: "search_playinfo (resp_text demo_page) = Some demo_manifest"
  by (simp add: demo_page_def ex_response_def demo_manifest_def match_playinfo_def strip_prefix_def
      is_ws1_def is_ws2_def is_ws3_def)

lemma plain_page_no_match: "search_playinfo (resp_text plain_page) = None"
  by (simp add: plain_page_def ex_response_def match_playinfo_def strip_prefix_def)

theorem get_bv_info_first_streams_witness:
  "search_playinfo (resp_text demo_page) = Some demo_manifest
   \<and> json_loads (resolve_env demo_page) demo_manifest = Inr (JObj demo_playinfo)
   \<and> title_of demo_view = Inr (JStr ''Demo'')
   \<and> get_bv_info (resolve_env demo_page) demo_bvid (JStr ''abc'') (JStr ''def'') (JStr ''42'')
        (ex_world (resolve_env demo_page)) =
      (Inr \<lparr>title = JStr ''Demo'', video_url = JStr ''V1'', audio_url = JStr ''A1'',
            accept_quality = JArr [JInt 120, JInt 80, JInt 64],
            get_video_infos =
              [(''bvid'', JStr demo_bvid), (''title'', JStr ''Demo''), (''video_url'', JStr ''V1'')],
            get_audio_infos =
              [(''bvid'', JStr demo_bvid), (''title'', JStr ''Demo''), (''audio_url'', JStr ''A1'')]\<rparr>,
       view_fetched (resolve_env demo_page))"
proof -
  let ?env = "resolve_env demo_page"
  have f1: "safe_get ?env (page_url demo_bvid) [(''timeout'', KInt 10)]
     (cookies_update [(''SESSDATA'', JStr ''abc''), (''bili_jct'', JStr ''def''),
        (''DedeUserID'', JStr ''42'')] (ex_world ?env)) = (Inr demo_page, page_fetched ?env)"
    using resolve_env_fetches(1) [OF pages_ok(1)] pages_ok(1) by simp
  have f2: "safe_get ?env (info_api demo_bvid) [(''timeout'', KInt 5)] (page_fetched ?env) =
     (Inr demo_view, view_fetched ?env)"
    by (rule resolve_env_fetches(2) [OF pages_ok(1)])
  have j: "json_loads ?env demo_manifest = Inr (JObj demo_playinfo)"
    by (simp add: resolve_env_def)
  have t: "title_of demo_view = Inr (JStr ''Demo'')"
    by (simp add: title_of_def demo_view_def ex_response_def py_get_def)
  have m: "map_of demo_playinfo ''data'' = Some (JObj
        [(''accept_quality'', JArr [JInt 120, JInt 80, JInt 64]),
         (''dash'', JObj
            [(''video'', JArr [JObj [(''baseUrl'', JStr ''V1'')]]),
             (''audio'', JArr [JObj [(''baseUrl'', JStr ''A1'')]])])])"
    by (simp add: demo_playinfo_def)
  show ?thesis
    using get_bv_info_first_streams [OF f1 demo_page_match j m _ _ _ _ _ _ f2 t,
        of "[(''video'', JArr [JObj [(''baseUrl'', JStr ''V1'')]]),
             (''audio'', JArr [JObj [(''baseUrl'', JStr ''A1'')]])]"
           "[(''baseUrl'', JStr ''V1'')]" "[]" "JStr ''V1''" "[(''baseUrl'', JStr ''A1'')]" "[]"
           "JStr ''A1''" "JArr [JInt 120, JInt 80, JInt 64]"]
      demo_page_match j t
    by simp
qed

theorem get_bv_info_no_manifest_witness:
  "search_playinfo (resp_text plain_page) = None
   \<and> safe_get (resolve_env plain_page) (page_url demo_bvid) [(''timeout'', KInt 10)]
        (cookies_update [(''SESSDATA'', JStr ''abc''), (''bili_jct'', JStr ''def''),
           (''DedeUserID'', JStr ''42'')] (ex_world (resolve_env plain_page))) =
      (Inr plain_page, page_fetched (resolve_env plain_page))
   \<and> get_bv_info (resolve_env plain_page) demo_bvid (JStr ''abc'') (JStr ''def'') (JStr ''42'')
        (ex_world (resolve_env plain_page)) =
      (Inl (Exn RuntimeError msg_no_playinfo), page_fetched (resolve_env plain_page))
   \<and> map c_url (w_log (page_fetched (resolve_env plain_page))) = [page_url demo_bvid]"
proof -
  let ?env = "resolve_env plain_page"
  have f1: "safe_get ?env (page_url demo_bvid) [(''timeout'', KInt 10)]
     (cookies_update [(''SESSDATA'', JStr ''abc''), (''bili_jct'', JStr ''def''),
        (''DedeUserID'', JStr ''42'')] (ex_world ?env)) = (Inr plain_page, page_fetched ?env)"
    using resolve_env_fetches(1) [OF pages_ok(2)] pages_ok(2) by simp
  have l: "map c_url (w_log (page_fetched ?env)) = [page_url demo_bvid]"
    by (simp add: page_fetched_def after_tier1_def with_cookies_def cookies_update_def ex_world_log
        tier1_call_def)
  show ?thesis
    using get_bv_info_no_manifest [OF f1 plain_page_no_match] f1 plain_page_no_match l
    by blast
qed

section \<open>The QR login: what one pass of the poll loop does\<close>

text \<open>
  The answer of the \<open>n\<close>-th network call read as a poll response: \<^verbatim>\<open>(js, d, status)\<close>, or the
  exception that the head of the loop body raises on it.
\<close>

definition poll_answer :: "env \<Rightarrow> nat \<Rightarrow> py_exn + json \<times> json \<times> json" where
  "poll_answer env n = and_then (net env n) (poll_decode env)"

text \<open>That answer carries a status equal to \<open>code\<close>.\<close>

definition status_is :: "env \<Rightarrow> nat \<Rightarrow> int \<Rightarrow> bool" where
  "status_is env n code =
     (case poll_answer env n of Inl e \<Rightarrow> False | Inr (js, d, status) \<Rightarrow> py_eq_int status code)"

text \<open>The value of \<^verbatim>\<open>elapsed\<close> in a pass that starts in \<open>w\<close>.\<close>

definition elapsed_at :: "env \<Rightarrow> rat \<Rightarrow> world \<Rightarrow> int" where
  "elapsed_at env start w = py_int (clock env (w_reads w) - start)"

text \<open>The poll request of a pass, and the world after the request and the reading of the clock.\<close>

definition poll_call :: "json \<Rightarrow> world \<Rightarrow> call" where
  "poll_call key w = \<lparr>c_client = w_session w, c_url = poll_url, c_kwargs = poll_kwargs key\<rparr>"

definition polled :: "env \<Rightarrow> json \<Rightarrow> world \<Rightarrow> world" where
  "polled env key w =
     w\<lparr>w_log := w_log w @ [poll_call key w],
       w_session := store_cookies (net env (length (w_log w))) (w_session w),
       w_reads := w_reads w + 1\<rparr>"

text \<open>The world after a pass that printed a progress line and slept.\<close>

definition waited :: "env \<Rightarrow> json \<Rightarrow> rat \<Rightarrow> rat \<Rightarrow> string \<Rightarrow> world \<Rightarrow> world" where
  "waited env key interval start msg w =
     (print_noend (msg_progress (elapsed_at env start w) msg) (polled env key w))
       \<lparr>w_sleeps := w_sleeps w @ [interval]\<rparr>"

lemma polled_simps [simp]:
  "w_log (polled env key w) = w_log w @ [poll_call key w]"
  "w_reads (polled env key w) = w_reads w + 1"
  "w_out (polled env key w) = w_out w"
  "w_sleeps (polled env key w) = w_sleeps w"
  "w_fs (polled env key w) = w_fs w"
  by (simp_all add: polled_def)

lemma waited_simps [simp]:
  "w_log (waited env key interval start msg w) = w_log w @ [poll_call key w]"
  "w_reads (waited env key interval start msg w) = w_reads w + 1"
  "w_out (waited env key interval start msg w) = w_out w @ [msg_progress (elapsed_at env start w) msg]"
  "w_sleeps (waited env key interval start msg w) = w_sleeps w @ [interval]"
  "w_fs (waited env key interval start msg w) = w_fs w"
  by (simp_all add: waited_def print_noend_def)

lemma print_simps [simp]:
  "w_log (print s w) = w_log w" "w_reads (print s w) = w_reads w"
  "w_out (print s w) = w_out w @ [s @ [CHR 0x0A]]" "w_sleeps (print s w) = w_sleeps w"
  "w_fs (print s w) = w_fs w" "w_session (print s w) = w_session w"
  "w_log (print_noend s w) = w_log w" "w_reads (print_noend s w) = w_reads w"
  "w_out (print_noend s w) = w_out w @ [s]" "w_sleeps (print_noend s w) = w_sleeps w"
  "w_fs (print_noend s w) = w_fs w" "w_session (print_noend s w) = w_session w"
  by (simp_all add: print_def print_noend_def)

lemma poll_pass_unfold:
  "poll_pass env key interval timeout start w =
     (case poll_answer env (length (w_log w)) of
        Inl e \<Rightarrow> (Done (Inl e), snd (session_get env poll_url (poll_kwargs key) w))
      | Inr (js, d, status) \<Rightarrow>
          if py_eq_int status 86101 then
            poll_wait interval timeout (elapsed_at env start w) msg_not_scanned (polled env key w)
          else if py_eq_int status 86090 then
            poll_wait interval timeout (elapsed_at env start w) msg_scanned (polled env key w)
          else if py_eq_int status 86038 then
            (Done (Inr False), print (msg_expired (elapsed_at env start w)) (polled env key w))
          else if py_eq_int status 0 then
            poll_confirm env d (elapsed_at env start w) (polled env key w)
          else (Done (Inl (Exn RuntimeError (msg_unknown_status @ fmt env js))), polled env key w))"
  by (simp add: poll_pass_def poll_answer_def session_get_eq time_time_def polled_def poll_call_def
      elapsed_at_def Let_def split: sum.splits prod.splits)


lemma status_isD:
  "status_is env n code \<Longrightarrow> \<exists>js d status. poll_answer env n = Inr (js, d, status) \<and> py_eq_int status code"
  by (auto simp: status_is_def split: sum.splits)



text \<open>A pass that sees status 86101 or 86090 at or after the timeout raises TimeoutError.\<close>

lemma poll_pass_timeout:
  assumes "status_is env (length (w_log w)) 86101 \<or> status_is env (length (w_log w)) 86090"
    and "timeout \<le> of_int (elapsed_at env start w)"
  shows "\<exists>msg. poll_pass env key interval timeout start w =
           (Done (Inl (Exn TimeoutError msg_timeout)),
            print_noend (msg_progress (elapsed_at env start w) msg) (polled env key w))"
proof -
  from assms(1) obtain js d status where a: "poll_answer env (length (w_log w)) = Inr (js, d, status)"
    "py_eq_int status 86101 \<or> py_eq_int status 86090"
    by (auto dest: status_isD)
  then show ?thesis
    using assms(2)
    by (auto simp: poll_pass_unfold poll_wait_def Let_def)
qed


text \<open>A pass that sees status 0 requests \<^verbatim>\<open>d["url"]\<close> and returns \<^verbatim>\<open>True\<close> when that GET returns.\<close>

definition confirm_call :: "env \<Rightarrow> json \<Rightarrow> json \<Rightarrow> world \<Rightarrow> call" where
  "confirm_call env key login_url w =
     \<lparr>c_client = w_session (polled env key w), c_url = url_of env login_url,
      c_kwargs = [(''timeout'', KInt 5)]\<rparr>"

definition confirmed :: "env \<Rightarrow> json \<Rightarrow> json \<Rightarrow> rat \<Rightarrow> world \<Rightarrow> world" where
  "confirmed env key login_url start w =
     print (msg_login_ok (elapsed_at env start w))
       ((polled env key w)
          \<lparr>w_log := w_log w @ [poll_call key w, confirm_call env key login_url w],
           w_session := store_cookies (net env (length (w_log w) + 1)) (w_session (polled env key w))\<rparr>)"


lemma confirmed_simps [simp]:
  "w_log (confirmed env key u start w) = w_log w @ [poll_call key w, confirm_call env key u w]"
  "w_out (confirmed env key u start w) = w_out w @ [msg_login_ok (elapsed_at env start w) @ [CHR 0x0A]]"
  "w_reads (confirmed env key u start w) = w_reads w + 1"
  "w_sleeps (confirmed env key u start w) = w_sleeps w"
  by (simp_all add: confirmed_def)




lemma time_time_eq: "time_time env w = (clock env (w_reads w), w\<lparr>w_reads := w_reads w + 1\<rparr>)"
  by (simp add: time_time_def)

text \<open>The world in which the loop of \<^verbatim>\<open>poll_login\<close> starts: \<^verbatim>\<open>start\<close> has been read.\<close>

definition started :: "world \<Rightarrow> world" where
  "started w = w\<lparr>w_reads := w_reads w + 1\<rparr>"

lemma started_simps [simp]:
  "w_log (started w) = w_log w" "w_reads (started w) = w_reads w + 1"
  "w_out (started w) = w_out w" "w_sleeps (started w) = w_sleeps w" "w_fs (started w) = w_fs w"
  by (simp_all add: started_def)

lemma poll_login_eq:
  "poll_login n env key interval timeout w =
     poll_loop n env key interval timeout (clock env (w_reads w)) (started w)"
  by (simp add: poll_login_def time_time_def started_def)

subsection \<open>Claim C5\<close>



text \<open>The answers of the login endpoints, and a run in which the code is scanned and confirmed.\<close>

definition qr_response :: "string \<Rightarrow> response" where
  "qr_response key = ex_response 200 ''OK'' []
     (Inr (JObj [(''code'', JInt 0),
                 (''data'', JObj [(''qrcode_key'', JStr key),
                                  (''url'', JStr (''https://account.bilibili.com/h5/account-h5/auth/scan-web?qrcode_key='' @ key))])]))"

definition poll_response :: "int \<Rightarrow> response" where
  "poll_response code = ex_response 200 ''OK'' []
     (Inr (JObj [(''code'', JInt 0),
                 (''data'', JObj [(''code'', JInt code),
                                  (''url'', JStr ''https://passport.biligame.com/x/passport-login/web/crossDomain'')])]))"








section \<open>The login driver\<close>

text \<open>
  The answer of the \<open>n\<close>-th network call read as the answer of the generate endpoint: the pair
  \<^verbatim>\<open>(qrcode_key, url)\<close>, or the exception that \<^verbatim>\<open>get_qr_login\<close> raises on it.
\<close>

definition qr_answer :: "env \<Rightarrow> nat \<Rightarrow> py_exn + json \<times> json" where
  "qr_answer env n = and_then (net env n) (qr_of_response env)"

definition generate_call :: "world \<Rightarrow> call" where
  "generate_call w =
     \<lparr>c_client = w_session w, c_url = qr_generate_url, c_kwargs = [(''timeout'', KInt 5)]\<rparr>"

text \<open>The world after the request of \<^verbatim>\<open>get_qr_login\<close>.\<close>

definition requested :: "env \<Rightarrow> world \<Rightarrow> world" where
  "requested env w =
     w\<lparr>w_log := w_log w @ [generate_call w],
       w_session := store_cookies (net env (length (w_log w))) (w_session w)\<rparr>"

lemma requested_simps [simp]:
  "w_log (requested env w) = w_log w @ [generate_call w]"
  "w_reads (requested env w) = w_reads w"
  "w_out (requested env w) = w_out w"
  "w_sleeps (requested env w) = w_sleeps w"
  "w_fs (requested env w) = w_fs w"
  by (simp_all add: requested_def)

lemma get_qr_login_eq: "get_qr_login env w = (qr_answer env (length (w_log w)), requested env w)"
  by (simp add: get_qr_login_def session_get_eq qr_answer_def requested_def generate_call_def)

text \<open>The calls of the login flow: a poll that carries a key, or a GET with only a timeout.\<close>

definition is_poll :: "json \<Rightarrow> call \<Rightarrow> bool" where
  "is_poll key c \<longleftrightarrow> c_url c = poll_url \<and> c_kwargs c = poll_kwargs key"

definition plain_get :: "call \<Rightarrow> bool" where
  "plain_get c \<longleftrightarrow> c_kwargs c = [(''timeout'', KInt 5)]"

lemma is_poll_call [simp]: "is_poll key (poll_call key w)"
  by (simp add: is_poll_def poll_call_def)

lemma plain_get_calls [simp]: "plain_get (generate_call w)" "plain_get (confirm_call env key u w)"
  by (simp_all add: plain_get_def generate_call_def confirm_call_def)



text \<open>The calls that \<^verbatim>\<open>poll_login(key)\<close> adds to the log.\<close>

lemma poll_wait_log: "w_log (snd (poll_wait interval timeout elapsed msg w)) = w_log w"
  by (simp add: poll_wait_def time_sleep_def Let_def)

lemma poll_confirm_log:
  "\<exists>cs. w_log (snd (poll_confirm env d elapsed w)) = w_log w @ cs \<and> list_all plain_get cs"
proof (cases "py_getitem d ''url''")
  case (Inl e)
  then show ?thesis by (simp add: poll_confirm_def)
next
  case (Inr u)
  then show ?thesis
    by (simp add: poll_confirm_def session_get_eq plain_get_def split: sum.splits)
qed

lemma poll_pass_log:
  "\<exists>cs. w_log (snd (poll_pass env key interval timeout start w)) = w_log w @ cs
        \<and> list_all (\<lambda>c. is_poll key c \<or> plain_get c) cs"
proof (cases "poll_answer env (length (w_log w))")
  case (Inl e)
  then show ?thesis
    by (simp add: poll_pass_unfold session_get_eq is_poll_def)
next
  case (Inr a)
  obtain js d status where a: "a = (js, d, status)" by (cases a)
  obtain cs where cs: "w_log (snd (poll_confirm env d (elapsed_at env start w) (polled env key w))) =
      w_log (polled env key w) @ cs" "list_all plain_get cs"
    using poll_confirm_log by blast
  have "list_all (\<lambda>c. is_poll key c \<or> plain_get c) cs"
    using cs(2) by (simp add: list_all_iff)
  with cs(1) Inr a show ?thesis
    by (simp add: poll_pass_unfold poll_wait_log)
qed

lemma poll_loop_log:
  "\<exists>cs. w_log (snd (poll_loop n env key interval timeout start w)) = w_log w @ cs
        \<and> list_all (\<lambda>c. is_poll key c \<or> plain_get c) cs"
proof (induction n arbitrary: w)
  case 0
  show ?case by simp
next
  case (Suc n)
  obtain p w1 where p: "poll_pass env key interval timeout start w = (p, w1)"
    by (cases "poll_pass env key interval timeout start w")
  obtain cs where cs: "w_log w1 = w_log w @ cs" "list_all (\<lambda>c. is_poll key c \<or> plain_get c) cs"
    using poll_pass_log [of env key interval timeout start w] p by auto
  show ?case
  proof (cases p)
    case Again
    obtain ds where "w_log (snd (poll_loop n env key interval timeout start w1)) = w_log w1 @ ds"
      "list_all (\<lambda>c. is_poll key c \<or> plain_get c) ds"
      using Suc.IH [of w1] by blast
    with cs p Again show ?thesis by simp
  next
    case (Done r)
    with cs p show ?thesis by simp
  qed
qed

lemma poll_login_log:
  "\<exists>cs. w_log (snd (poll_login n env key interval timeout w)) = w_log w @ cs
        \<and> list_all (\<lambda>c. is_poll key c \<or> plain_get c) cs"
  using poll_loop_log [of n env key interval timeout "clock env (w_reads w)" "started w"]
  by (simp add: poll_login_eq)

text \<open>
  The calls of one pass of the driver: the generate request, and then only GETs with a timeout
  and polls with the key of the answer to that request.
\<close>

lemma show_qr_terminal_log: "w_log (snd (show_qr_terminal env url w)) = w_log w"
  by (simp add: show_qr_terminal_def split: sum.splits)

lemma login_pass_log:
  "\<exists>cs. w_log (snd (login_pass m env w)) = w_log w @ generate_call w # cs
        \<and> (cs = [] \<or> (\<exists>key url. qr_answer env (length (w_log w)) = Inr (key, url)
                        \<and> list_all (\<lambda>c. is_poll key c \<or> plain_get c) cs))"
proof (cases "qr_answer env (length (w_log w))")
  case (Inl e)
  then show ?thesis by (simp add: login_pass_def get_qr_login_eq)
next
  case (Inr a)
  obtain key url where a: "a = (key, url)" by (cases a)
  let ?w1 = "print msg_scan_prompt (requested env w)"
  show ?thesis
  proof (cases "show_qr_terminal env url ?w1")
    case (Pair r w2)
    have l2: "w_log w2 = w_log w @ [generate_call w]"
      using show_qr_terminal_log [of env url ?w1] Pair by simp
    show ?thesis
    proof (cases r)
      case (Inl e)
      with Inr a Pair l2 show ?thesis by (simp add: login_pass_def get_qr_login_eq)
    next
      case (Inr u)
      obtain cs where cs: "w_log (snd (poll_login m env key 2 180 w2)) = w_log w2 @ cs"
        "list_all (\<lambda>c. is_poll key c \<or> plain_get c) cs"
        using poll_login_log by blast
      obtain res w3 where res: "poll_login m env key 2 180 w2 = (res, w3)"
        by (cases "poll_login m env key 2 180 w2")
      have "w_log (snd (login_pass m env w)) = w_log w3"
        using \<open>qr_answer env (length (w_log w)) = Inr a\<close> a Pair Inr res
        by (simp add: login_pass_def get_qr_login_eq split: option.splits sum.splits)
      with cs res l2 \<open>qr_answer env (length (w_log w)) = Inr a\<close> a show ?thesis by simp
    qed
  qed
qed




subsection \<open>Sessions that end in TimeoutError\<close>

text \<open>
  One pass of the driver in which \<^verbatim>\<open>poll_login\<close> raises TimeoutError: the world at the raise, or
  \<open>None\<close> when the pass goes any other way.
\<close>

definition timed_out :: "nat \<Rightarrow> env \<Rightarrow> world \<Rightarrow> world option" where
  "timed_out m env w =
     (case get_qr_login env w of
        (Inl e, w1) \<Rightarrow> None
      | (Inr (key, url), w1) \<Rightarrow>
          (case show_qr_terminal env url (print msg_scan_prompt w1) of
             (Inl e, w2) \<Rightarrow> None
           | (Inr u, w2) \<Rightarrow>
               (case poll_login m env key 2 180 w2 of
                  (Some (Inl e), w3) \<Rightarrow> if exn_cls e = TimeoutError then Some w3 else None
                | (Some (Inr ok), w3) \<Rightarrow> None
                | (None, w3) \<Rightarrow> None)))"

text \<open>\<open>k\<close> such passes in a row, each followed by the notice of the \<^verbatim>\<open>except TimeoutError\<close> clause.\<close>

fun after_timeouts :: "nat \<Rightarrow> nat \<Rightarrow> env \<Rightarrow> world \<Rightarrow> world option" where
  "after_timeouts 0 m env w = Some w"
| "after_timeouts (Suc k) m env w =
     (case timed_out m env w of
        None \<Rightarrow> None
      | Some w3 \<Rightarrow> after_timeouts k m env (print msg_timeout_retry w3))"

lemma timed_out_pass:
  "timed_out m env w = Some w3 \<Longrightarrow> login_pass m env w = (Some Again, print msg_timeout_retry w3)"
  by (auto simp: timed_out_def login_pass_def split: prod.splits sum.splits option.splits if_splits)

lemma after_timeouts_loop:
  "after_timeouts k m env w = Some w' \<Longrightarrow> login_loop (k + n) m env w = login_loop n m env w'"
proof (induction k arbitrary: w)
  case 0
  then show ?case by simp
next
  case (Suc k)
  then obtain w3 where w3: "timed_out m env w = Some w3"
    "after_timeouts k m env (print msg_timeout_retry w3) = Some w'"
    by (auto split: option.splits)
  show ?case
    using Suc.IH [OF w3(2)] timed_out_pass [OF w3(1)] by simp
qed

lemma after_timeouts_notice:
  "after_timeouts (Suc k) m env w = Some w' \<Longrightarrow> last (w_out w') = msg_timeout_retry @ [CHR 0x0A]"
proof (induction k arbitrary: w)
  case 0
  then show ?case by (auto split: option.splits)
next
  case (Suc k)
  from Suc.prems obtain w3 where w3: "timed_out m env w = Some w3"
    "after_timeouts (Suc k) m env (print msg_timeout_retry w3) = Some w'"
    by (auto split: option.splits)
  show ?case by (rule Suc.IH [OF w3(2)])
qed

lemma login_pass_generate:
  "take (Suc (length (w_log w))) (map c_url (w_log (snd (login_pass m env w)))) =
     map c_url (w_log w) @ [qr_generate_url]"
proof -
  obtain cs where "w_log (snd (login_pass m env w)) = w_log w @ generate_call w # cs"
    using login_pass_log by blast
  then show ?thesis by (simp add: generate_call_def)
qed

text \<open>Two sessions that time out, and a third in which the code is confirmed.\<close>

definition timeouts_env :: env where
  "timeouts_env = ex_env
     (script_of [Inr (qr_response ''k1''), Inr (poll_response 86101),
                 Inr (qr_response ''k2''), Inr (poll_response 86101),
                 Inr (qr_response ''k3''), Inr (poll_response 0), Inr page_ok]
        (Inl (Exn RequestException [])))
     (script_of [0, 200, 200, 400, 400, 401] 401)"

subsection \<open>Claim C7\<close>

text \<open>
  C7 as stated fails: the driver does not give up after a second timeout. In this run the first
  two sessions end in TimeoutError (the clock is 200 seconds past the start at the first poll of
  each), the driver prints its notice twice, requests a third QR code, and the login succeeds in
  the third session. After the two timeouts the loop is still running.
\<close>

theorem login_third_session_counterexample:
  "fst (poll_login 1 timeouts_env (JStr ''k1'') 2 180
          (snd (show_qr_terminal timeouts_env
                 (JStr ''https://account.bilibili.com/h5/account-h5/auth/scan-web?qrcode_key=k1'')
                 (print msg_scan_prompt (snd (get_qr_login timeouts_env (ex_world timeouts_env)))))))
     = Some (Inl (Exn TimeoutError msg_timeout))
   \<and> fst (login_loop 2 1 timeouts_env (ex_world timeouts_env)) = None
   \<and> fst (login_loop 3 1 timeouts_env (ex_world timeouts_env)) = Some (Inr ())
   \<and> map c_url (w_log (snd (login_loop 3 1 timeouts_env (ex_world timeouts_env)))) =
       [qr_generate_url, poll_url, qr_generate_url, poll_url, qr_generate_url, poll_url,
        ''https://passport.biligame.com/x/passport-login/web/crossDomain'']
   \<and> map c_kwargs (w_log (snd (login_loop 3 1 timeouts_env (ex_world timeouts_env)))) =
       [[(''timeout'', KInt 5)], poll_kwargs (JStr ''k1''),
        [(''timeout'', KInt 5)], poll_kwargs (JStr ''k2''),
        [(''timeout'', KInt 5)], poll_kwargs (JStr ''k3''), [(''timeout'', KInt 5)]]
   \<and> filter (\<lambda>s. s = msg_timeout_retry @ [CHR 0x0A])
        (w_out (snd (login_loop 3 1 timeouts_env (ex_world timeouts_env)))) =
       [msg_timeout_retry @ [CHR 0x0A], msg_timeout_retry @ [CHR 0x0A]]"
  by (intro conjI; code_simp)

text \<open>
  C7, amended. Every TimeoutError of \<^verbatim>\<open>poll_login\<close> is caught by the driver, which prints the
  notice and goes round its loop again, with no bound on the number of times: after any number
  \<open>k\<close> of sessions in a row that time out, the driver has neither returned nor raised, the last
  line printed is the notice, the loop goes on from the world reached, and the first request of
  the next pass is a new generate request.
\<close>

theorem login_retries_every_timeout:
  assumes "after_timeouts k m env w = Some w'"
  shows "login_loop (k + n) m env w = login_loop n m env w'
       \<and> fst (login_loop k m env w) = None
       \<and> (0 < k \<longrightarrow> last (w_out w') = msg_timeout_retry @ [CHR 0x0A])
       \<and> take (Suc (length (w_log w'))) (map c_url (w_log (snd (login_pass m env w')))) =
           map c_url (w_log w') @ [qr_generate_url]"
proof -
  have "login_loop (k + 0) m env w = login_loop 0 m env w'"
    by (rule after_timeouts_loop [OF assms])
  then have none: "fst (login_loop k m env w) = None"
    by simp
  have notice: "0 < k \<longrightarrow> last (w_out w') = msg_timeout_retry @ [CHR 0x0A]"
  proof
    assume "0 < k"
    then obtain j where "k = Suc j" by (cases k) auto
    with assms show "last (w_out w') = msg_timeout_retry @ [CHR 0x0A]"
      using after_timeouts_notice [of j m env w w'] by simp
  qed
  show ?thesis
    by (intro conjI after_timeouts_loop [OF assms] none notice login_pass_generate)
qed

theorem login_retries_every_timeout_witness:
  "map_option (\<lambda>w. (map c_url (w_log w), w_reads w))
       (after_timeouts 2 1 timeouts_env (ex_world timeouts_env)) =
     Some ([qr_generate_url, poll_url, qr_generate_url, poll_url], 4)
   \<and> login_loop (2 + 1) 1 timeouts_env (ex_world timeouts_env) =
       login_loop 1 1 timeouts_env (the (after_timeouts 2 1 timeouts_env (ex_world timeouts_env)))
   \<and> fst (login_loop 2 1 timeouts_env (ex_world timeouts_env)) = None
   \<and> last (w_out (the (after_timeouts 2 1 timeouts_env (ex_world timeouts_env)))) =
       msg_timeout_retry @ [CHR 0x0A]
   \<and> take 5 (map c_url (w_log (snd (login_pass 1 timeouts_env
         (the (after_timeouts 2 1 timeouts_env (ex_world timeouts_env))))))) =
       [qr_generate_url, poll_url, qr_generate_url, poll_url, qr_generate_url]"
proof -
  let ?a = "after_timeouts 2 1 timeouts_env (ex_world timeouts_env)"
  have a: "map_option (\<lambda>w. (map c_url (w_log w), w_reads w)) ?a =
      Some ([qr_generate_url, poll_url, qr_generate_url, poll_url], 4)"
    by code_simp
  then obtain w' where w': "?a = Some w'"
    "map c_url (w_log w') = [qr_generate_url, poll_url, qr_generate_url, poll_url]"
    by auto
  have "length (map c_url (w_log w')) = 4"
    unfolding w'(2) by simp
  then have l: "length (w_log w') = 4" by simp
  have t: "(0::nat) < 2" by simp
  note inst = login_retries_every_timeout [OF w'(1), of 1]
  from inst have 1: "login_loop (2 + 1) 1 timeouts_env (ex_world timeouts_env) =
       login_loop 1 1 timeouts_env (the ?a)"
    unfolding w'(1) by simp
  from inst have 2: "fst (login_loop 2 1 timeouts_env (ex_world timeouts_env)) = None"
    by blast
  from inst t have 3: "last (w_out (the ?a)) = msg_timeout_retry @ [CHR 0x0A]"
    unfolding w'(1) by simp
  from inst have 4: "take 5 (map c_url (w_log (snd (login_pass 1 timeouts_env (the ?a))))) =
       [qr_generate_url, poll_url, qr_generate_url, poll_url, qr_generate_url]"
    unfolding w'(1) by (simp add: l w'(2))
  show ?thesis
    by (intro conjI a 1 2 3 4)
qed

subsection \<open>Sessions that end with an expired code\<close>



text \<open>The world in which \<^verbatim>\<open>poll_login\<close> is called: the code has been requested and shown.\<close>

definition shown :: "env \<Rightarrow> string \<Rightarrow> world \<Rightarrow> world" where
  "shown env art w = print_noend art (print msg_scan_prompt (requested env w))"

lemma shown_simps [simp]:
  "w_log (shown env art w) = w_log w @ [generate_call w]"
  "w_reads (shown env art w) = w_reads w"
  "w_sleeps (shown env art w) = w_sleeps w"
  by (simp_all add: shown_def)



subsection \<open>Claim C6\<close>






end
